theory Spec2Isabelle
  imports Complex_Main "HOL-Library.Word"
begin

unbundle bit_operations_syntax

section \<open>Conventions of the embedding\<close>

text \<open>
  The theme engine is Python. Its floats are modelled as \<^typ>\<open>real\<close> (exact arithmetic, no
  rounding error), its unbounded integers as \<^typ>\<open>int\<close>, its \<open>uint8\<close> numpy arrays as lists
  of \<^typ>\<open>8 word\<close>, its dictionaries as association lists read with \<^const>\<open>map_of\<close>, and
  every exception as a value \<open>Inl e\<close> of a sum type. Strings are byte strings; the tags and
  keys of the engine are ASCII. Where a result depends on the rounding of a float operation,
  as the base font size does, the code is modelled over a record of float operations
  instead, of which exact arithmetic is one instance.
\<close>

datatype py_error =
  TypeError | AttributeError | ZeroDivisionError | KeyError | OverflowError | ValueError

text \<open>Python's \<open>int(x)\<close> on a float truncates towards zero.\<close>

definition py_int :: "real \<Rightarrow> int" where
  "py_int x = (if 0 \<le> x then \<lfloor>x\<rfloor> else \<lceil>x\<rceil>)"

text \<open>Python's \<open>round(x)\<close> rounds to the nearest integer, ties to the even one.\<close>

definition py_round :: "real \<Rightarrow> int" where
  "py_round x = (if frac x = 1 / 2 then (if even \<lfloor>x\<rfloor> then \<lfloor>x\<rfloor> else \<lfloor>x\<rfloor> + 1) else round x)"

text \<open>\<open>round(x, n)\<close>: the same rounding at \<open>n\<close> decimals.\<close>

definition py_round_to :: "nat \<Rightarrow> real \<Rightarrow> real" where
  "py_round_to n x = real_of_int (py_round (x * 10 ^ n)) / 10 ^ n"

text \<open>
  \<open>str.strip()\<close> removes leading and trailing whitespace; on ASCII text the whitespace
  characters are the codes 9 to 13, 28 to 32.
\<close>

definition is_space :: "char \<Rightarrow> bool" where
  "is_space c = (let n = of_char c :: nat in (9 \<le> n \<and> n \<le> 13) \<or> (28 \<le> n \<and> n \<le> 32))"

definition strip :: "string \<Rightarrow> string" where
  "strip s = rev (dropWhile is_space (rev (dropWhile is_space s)))"

text \<open>\<open>s.split(',')\<close>: the pieces between commas; always at least one piece.\<close>

fun split_comma :: "string \<Rightarrow> string list" where
  "split_comma [] = [[]]"
| "split_comma (c # cs) =
     (if c = CHR '','' then [] # split_comma cs
      else (case split_comma cs of
              [] \<Rightarrow> [[c]]
            | p # ps \<Rightarrow> (c # p) # ps))"

text \<open>\<open>str.lower()\<close> on ASCII text.\<close>

definition lower_char :: "char \<Rightarrow> char" where
  "lower_char c = (let n = of_char c :: nat in if 65 \<le> n \<and> n \<le> 90 then char_of (n + 32) else c)"

definition lower :: "string \<Rightarrow> string" where
  "lower s = map lower_char s"

section \<open>Brand guideline parser (\<open>core/brand_guideline_parser.py\<close>)\<close>

text \<open>What \<open>json.load\<close> returns.\<close>

datatype json =
  JNull | JBool bool | JNum real | JStr string | JArr "json list" | JObj "(string \<times> json) list"

text \<open>
  What the parser finds at \<open>guidelines_path\<close>: no file, a file that cannot be read or is
  not JSON, or a JSON document.
\<close>

datatype guidelines_file = NotFound | Unreadable | InvalidJson | Document json

text \<open>The messages the parser prints, one constructor per \<open>print\<close> call.\<close>

datatype diagnostic =
    FileNotFoundWarning
  | InvalidFormatWarning string
  | InvalidLayoutWarning
  | LoadedMessage
  | InvalidJsonError
  | UnexpectedError

type_synonym guidelines = "(string \<times> json) list"

text \<open>
  \<open>key in guidelines\<close> and \<open>guidelines[key]\<close> on the loaded document. A dictionary answers
  both; a list answers membership and raises on the string index; a string answers the
  substring test and raises on the index; every other value raises on \<open>in\<close>.
\<close>

fun is_infix :: "string \<Rightarrow> string \<Rightarrow> bool" where
  "is_infix xs [] = (xs = [])"
| "is_infix xs (y # ys) = (take (length xs) (y # ys) = xs \<or> is_infix xs ys)"

fun key_in :: "string \<Rightarrow> json \<Rightarrow> py_error + bool" where
  "key_in k (JObj kvs) = Inr (k \<in> fst ` set kvs)"
| "key_in k (JArr vs) = Inr (JStr k \<in> set vs)"
| "key_in k (JStr s) = Inr (is_infix k s)"
| "key_in k _ = Inl TypeError"

fun subscript :: "json \<Rightarrow> string \<Rightarrow> py_error + json" where
  "subscript (JObj kvs) k = (case map_of kvs k of Some v \<Rightarrow> Inr v | None \<Rightarrow> Inl KeyError)"
| "subscript _ k = Inl TypeError"

definition is_hex_color :: "json \<Rightarrow> bool" where
  "is_hex_color v = (case v of
      JStr s \<Rightarrow> take 1 s = ''#'' \<and> (length s = 7 \<or> length s = 4)
    | _ \<Rightarrow> False)"

definition is_font_name :: "json \<Rightarrow> bool" where
  "is_font_name v = (case v of JStr s \<Rightarrow> s \<noteq> [] | _ \<Rightarrow> False)"

definition is_layout_preference :: "json \<Rightarrow> bool" where
  "is_layout_preference v = (case v of
      JStr s \<Rightarrow> s \<in> set [''minimalist'', ''bold'', ''classic'', ''modern'']
    | _ \<Rightarrow> False)"

text \<open>
  One round of the validation: if the key is present and its value passes the test it is
  stored, if it is present and fails the warning is printed, if it is absent nothing
  happens. The state is the dictionary built so far and the messages printed so far.
\<close>

definition check_key ::
  "(json \<Rightarrow> bool) \<Rightarrow> diagnostic \<Rightarrow> json \<Rightarrow> string \<Rightarrow> guidelines \<times> diagnostic list
     \<Rightarrow> py_error + guidelines \<times> diagnostic list" where
  "check_key ok warning doc k st =
     (case key_in k doc of
        Inl e \<Rightarrow> Inl e
      | Inr False \<Rightarrow> Inr st
      | Inr True \<Rightarrow>
          (case subscript doc k of
             Inl e \<Rightarrow> Inl e
           | Inr v \<Rightarrow>
               if ok v then Inr (fst st @ [(k, v)], snd st)
               else Inr (fst st, snd st @ [warning])))"

fun check_keys ::
  "(json \<Rightarrow> bool) \<Rightarrow> (string \<Rightarrow> diagnostic) \<Rightarrow> json \<Rightarrow> string list \<Rightarrow> guidelines \<times> diagnostic list
     \<Rightarrow> py_error + guidelines \<times> diagnostic list" where
  "check_keys ok warning doc [] st = Inr st"
| "check_keys ok warning doc (k # ks) st =
     (case check_key ok (warning k) doc k st of
        Inl e \<Rightarrow> Inl e
      | Inr st' \<Rightarrow> check_keys ok warning doc ks st')"

definition validate :: "json \<Rightarrow> py_error + guidelines \<times> diagnostic list" where
  "validate doc =
     (case check_keys is_hex_color InvalidFormatWarning doc
             [''primaryColor'', ''secondaryColor'', ''accentColor''] ([], []) of
        Inl e \<Rightarrow> Inl e
      | Inr st1 \<Rightarrow>
          (case check_keys is_font_name InvalidFormatWarning doc [''headingFont'', ''bodyFont''] st1 of
             Inl e \<Rightarrow> Inl e
           | Inr st2 \<Rightarrow>
               (case check_key is_layout_preference InvalidLayoutWarning doc ''layoutPreference'' st2 of
                  Inl e \<Rightarrow> Inl e
                | Inr st3 \<Rightarrow> Inr (fst st3, snd st3 @ [LoadedMessage]))))"

text \<open>
  \<open>parse_brand_guidelines\<close>: the dictionary returned and the messages printed. Every
  exception inside the \<open>try\<close> block is caught and answered with the empty dictionary.
\<close>

definition parse_brand_guidelines :: "guidelines_file \<Rightarrow> guidelines \<times> diagnostic list" where
  "parse_brand_guidelines f =
     (case f of
        NotFound \<Rightarrow> ([], [FileNotFoundWarning])
      | Unreadable \<Rightarrow> ([], [UnexpectedError])
      | InvalidJson \<Rightarrow> ([], [InvalidJsonError])
      | Document doc \<Rightarrow>
          (case validate doc of
             Inl e \<Rightarrow> ([], [UnexpectedError])
           | Inr st \<Rightarrow> st))"

section \<open>Colour utilities and palette extraction (\<open>core/palette_extractor.py\<close>)\<close>

type_synonym rgb = "int \<times> int \<times> int"

definition valid_rgb :: "rgb \<Rightarrow> bool" where
  "valid_rgb c = (case c of (r, g, b) \<Rightarrow> 0 \<le> r \<and> r \<le> 255 \<and> 0 \<le> g \<and> g \<le> 255 \<and> 0 \<le> b \<and> b \<le> 255)"

text \<open>The gamma correction of one normalised channel, WCAG 2.0.\<close>

definition gamma_correct :: "real \<Rightarrow> real" where
  "gamma_correct x = (if x \<le> 0.03928 then x / 12.92 else ((x + 0.055) / 1.055) powr 2.4)"

definition get_luminance :: "rgb \<Rightarrow> real" where
  "get_luminance c = (case c of (r, g, b) \<Rightarrow>
     0.2126 * gamma_correct (real_of_int r / 255)
     + 0.7152 * gamma_correct (real_of_int g / 255)
     + 0.0722 * gamma_correct (real_of_int b / 255))"

definition get_contrast_ratio :: "rgb \<Rightarrow> rgb \<Rightarrow> real" where
  "get_contrast_ratio rgb1 rgb2 =
     (let L1 = get_luminance rgb1; L2 = get_luminance rgb2
      in if L2 > L1 then (L2 + 0.05) / (L1 + 0.05) else (L1 + 0.05) / (L2 + 0.05))"

text \<open>
  \<open>colorsys.rgb_to_hls\<close> and \<open>colorsys.hls_to_rgb\<close> of the Python standard library, which
  the engine calls on channels scaled to the unit interval. \<open>x % 1.0\<close> is \<^term>\<open>frac x\<close>.
\<close>

definition rgb_to_hls :: "real \<Rightarrow> real \<Rightarrow> real \<Rightarrow> real \<times> real \<times> real" where
  "rgb_to_hls r g b =
     (let maxc = max r (max g b); minc = min r (min g b);
          sumc = maxc + minc; rangec = maxc - minc; l = sumc / 2
      in if minc = maxc then (0, l, 0)
         else
           let s = (if l \<le> 0.5 then rangec / sumc else rangec / (2 - maxc - minc));
               rc = (maxc - r) / rangec; gc = (maxc - g) / rangec; bc = (maxc - b) / rangec;
               h = (if r = maxc then bc - gc else if g = maxc then 2 + rc - bc else 4 + gc - rc)
           in (frac (h / 6), l, s))"

definition hls_v :: "real \<Rightarrow> real \<Rightarrow> real \<Rightarrow> real" where
  "hls_v m1 m2 hue0 =
     (let hue = frac hue0
      in if hue < 1 / 6 then m1 + (m2 - m1) * hue * 6
         else if hue < 0.5 then m2
         else if hue < 2 / 3 then m1 + (m2 - m1) * (2 / 3 - hue) * 6
         else m1)"

definition hls_to_rgb :: "real \<Rightarrow> real \<Rightarrow> real \<Rightarrow> real \<times> real \<times> real" where
  "hls_to_rgb h l s =
     (if s = 0 then (l, l, l)
      else
        let m2 = (if l \<le> 0.5 then l * (1 + s) else l + s - l * s);
            m1 = 2 * l - m2
        in (hls_v m1 m2 (h + 1 / 3), hls_v m1 m2 h, hls_v m1 m2 (h - 1 / 3)))"

definition rgb_of_norm :: "real \<times> real \<times> real \<Rightarrow> rgb" where
  "rgb_of_norm c = (case c of (r, g, b) \<Rightarrow> (py_int (r * 255), py_int (g * 255), py_int (b * 255)))"

definition hls_of_rgb :: "rgb \<Rightarrow> real \<times> real \<times> real" where
  "hls_of_rgb c = (case c of (r, g, b) \<Rightarrow>
     rgb_to_hls (real_of_int r / 255) (real_of_int g / 255) (real_of_int b / 255))"

text \<open>
  The loop of \<open>suggest_accessible_color\<close>: \<open>n\<close> is the number of iterations of
  \<open>for _ in range(max_attempts)\<close> still to run. The result is the colour returned and the
  number of lightness adjustments made. The contrast tested at the head of an iteration is
  the contrast of the current colour, which the source keeps in \<open>current_contrast\<close>.
\<close>

primrec adjust_lightness :: "nat \<Rightarrow> real \<Rightarrow> real \<Rightarrow> rgb \<Rightarrow> real \<Rightarrow> real \<Rightarrow> rgb \<Rightarrow> rgb \<times> nat" where
  "adjust_lightness 0 hue saturation background_rgb target_contrast lightness current_rgb =
     (current_rgb, 0)"
| "adjust_lightness (Suc n) hue saturation background_rgb target_contrast lightness current_rgb =
     (if get_contrast_ratio current_rgb background_rgb \<ge> target_contrast then (current_rgb, 0)
      else
        let new_lightness =
              (if get_luminance current_rgb < get_luminance background_rgb
               then lightness + 0.05 else lightness - 0.05);
            lightness' = max 0 (min 1 new_lightness);
            current_rgb' = rgb_of_norm (hls_to_rgb hue lightness' saturation);
            rest = adjust_lightness n hue saturation background_rgb target_contrast
                     lightness' current_rgb'
        in (fst rest, Suc (snd rest)))"

definition max_attempts :: nat where
  "max_attempts = 20"

definition suggest_accessible_color_steps :: "rgb \<Rightarrow> rgb \<Rightarrow> real \<Rightarrow> rgb \<times> nat" where
  "suggest_accessible_color_steps original_rgb background_rgb target_contrast =
     (case hls_of_rgb original_rgb of (hue, lightness, saturation) \<Rightarrow>
        adjust_lightness max_attempts hue saturation background_rgb target_contrast
          lightness original_rgb)"

definition suggest_accessible_color :: "rgb \<Rightarrow> rgb \<Rightarrow> real \<Rightarrow> rgb" where
  "suggest_accessible_color original_rgb background_rgb target_contrast =
     fst (suggest_accessible_color_steps original_rgb background_rgb target_contrast)"

record suggestion =
  issue :: string
  context_text :: string
  current_ratio :: real
  required_AA :: real
  suggestion_text :: string
  compliant_AA_normal :: bool

record harmony =
  score :: real
  explanation :: string

record palette_result =
  primary :: string
  secondary :: string
  accent :: string
  accessibility_suggestions :: "suggestion list"
  color_harmony_score :: harmony

definition default_palette :: "string \<Rightarrow> palette_result" where
  "default_palette why =
     \<lparr> primary = ''#FFFFFF'', secondary = ''#CCCCCC'', accent = ''#000000'',
       accessibility_suggestions = [],
       color_harmony_score = \<lparr> score = 0, explanation = why \<rparr> \<rparr>"

text \<open>
  \<open>extract_palette\<close>. Each element of \<open>image_paths\<close> is what opening that path gives: \<open>None\<close>
  when \<open>Image.open\<close> raises (the exception is caught and the path skipped), otherwise the
  pixels of the thumbnail. The clustering of the pooled pixels is done by scikit-learn's
  \<open>MiniBatchKMeans\<close>; that call and the palette, accessibility and harmony computation on
  its centroids are the parameter \<open>cluster\<close>, which may raise.
\<close>

definition extract_palette ::
  "(rgb list \<Rightarrow> string \<Rightarrow> string \<Rightarrow> py_error + palette_result)
     \<Rightarrow> rgb list option list \<Rightarrow> string \<Rightarrow> string \<Rightarrow> py_error + palette_result" where
  "extract_palette cluster image_paths color_palette_style mode =
     (if image_paths = [] then Inr (default_palette ''No images provided for color analysis.'')
      else
        let all_pixels = concat (map (\<lambda>img. case img of None \<Rightarrow> [] | Some pixels \<Rightarrow> pixels) image_paths)
        in if all_pixels = []
           then Inr (default_palette ''No valid pixels extracted for color analysis.'')
           else cluster all_pixels color_palette_style mode)"

section \<open>Image metric extractors (\<open>core/image_analyzer.py\<close>)\<close>

text \<open>
  A decoded image: the \<open>uint8\<close> array of the grey-scale conversion and the array of RGB
  pixels, both as lists of rows. Decoding and the grey-scale conversion are done by the
  imaging library. Sums over a \<open>uint8\<close> array are taken by numpy in 64 bits and are modelled
  as unbounded naturals.
\<close>

type_synonym gray_image = "8 word list list"
type_synonym rgb_pixel = "8 word \<times> 8 word \<times> 8 word"
type_synonym rgb_image = "rgb_pixel list list"

definition img_height :: "'a list list \<Rightarrow> nat" where
  "img_height img = length img"

definition img_width :: "'a list list \<Rightarrow> nat" where
  "img_width img = (case img of [] \<Rightarrow> 0 | row # _ \<Rightarrow> length row)"

definition img_size :: "'a list list \<Rightarrow> nat" where
  "img_size img = img_height img * img_width img"

definition pixel_sum :: "gray_image \<Rightarrow> nat" where
  "pixel_sum img = sum_list (map unat (concat img))"

subsection \<open>Symmetry\<close>

text \<open>
  \<open>top_half - bottom_half_flipped\<close> is a subtraction of \<open>uint8\<close> arrays: it is taken modulo
  256, element by element, and \<open>np.abs\<close> of an unsigned array returns it unchanged.
\<close>

definition array_sub :: "gray_image \<Rightarrow> gray_image \<Rightarrow> gray_image" where
  "array_sub a b = map2 (map2 (\<lambda>x y. x - y)) a b"

definition np_abs :: "gray_image \<Rightarrow> gray_image" where
  "np_abs a = a"

text \<open>
  The slices keep the other dimension of the array, so the shape of a half is its number
  of rows (columns) together with the full width (height).
\<close>

definition symmetry_horizontal_of :: "gray_image \<Rightarrow> real" where
  "symmetry_horizontal_of g =
     (let height = img_height g; width = img_width g;
          top_half = take (height div 2) g;
          bottom_half = drop (height div 2 + height mod 2) g;
          bottom_half_flipped = rev bottom_half;
          top_size = length top_half * width
      in if (length top_half, width) = (length bottom_half_flipped, width) \<and> top_size > 0
         then 1 - real (pixel_sum (np_abs (array_sub top_half bottom_half_flipped)))
                    / real (255 * top_size)
         else 0)"

definition symmetry_vertical_of :: "gray_image \<Rightarrow> real" where
  "symmetry_vertical_of g =
     (let height = img_height g; width = img_width g;
          left_half = map (take (width div 2)) g;
          right_half = map (drop (width div 2 + width mod 2)) g;
          right_half_flipped = map rev right_half;
          left_size = height * (width div 2)
      in if (height, width div 2) = (height, width - (width div 2 + width mod 2)) \<and> left_size > 0
         then 1 - real (pixel_sum (np_abs (array_sub left_half right_half_flipped)))
                    / real (255 * left_size)
         else 0)"

subsection \<open>Whitespace\<close>

definition count_pixels :: "(nat \<Rightarrow> bool) \<Rightarrow> gray_image \<Rightarrow> nat" where
  "count_pixels P g = length (filter (\<lambda>v. P (unat v)) (concat g))"

definition whitespace_percentage_of :: "gray_image \<Rightarrow> real" where
  "whitespace_percentage_of g =
     py_round_to 2
       (real (count_pixels (\<lambda>v. v > 240) g + count_pixels (\<lambda>v. v < 15) g) / real (img_size g) * 100)"

subsection \<open>Fractal dimension by box counting\<close>

text \<open>\<open>math.ceil(math.log2(n))\<close> for \<open>n \<ge> 1\<close>: the least \<open>k\<close> with \<open>n \<le> 2 ^ k\<close>.\<close>

function ceil_log2 :: "nat \<Rightarrow> nat" where
  "ceil_log2 n = (if n \<le> 1 then 0 else Suc (ceil_log2 ((n + 1) div 2)))"
  by pat_completeness auto
termination
  by (relation "measure id") auto

declare ceil_log2.simps [simp del]

definition binarize :: "nat \<Rightarrow> gray_image \<Rightarrow> nat list list" where
  "binarize threshold g = map (map (\<lambda>v. if unat v < threshold then 1 else 0)) g"

text \<open>The binary image padded with zeros to a square.\<close>

definition padded_at :: "nat list list \<Rightarrow> nat \<Rightarrow> nat \<Rightarrow> nat" where
  "padded_at Z i j = (if i < length Z \<and> j < length (Z ! i) then Z ! i ! j else 0)"

text \<open>
  The two \<open>np.add.reduceat\<close> calls sum the padded image over the boxes of side \<open>k\<close>;
  \<open>boxcount\<close> counts the boxes whose sum is positive.
\<close>

definition box_sum :: "nat list list \<Rightarrow> nat \<Rightarrow> nat \<Rightarrow> nat \<Rightarrow> nat" where
  "box_sum Z k bi bj =
     sum_list (map (\<lambda>i. sum_list (map (\<lambda>j. padded_at Z i j) [bj * k ..< bj * k + k]))
                   [bi * k ..< bi * k + k])"

definition boxcount :: "nat list list \<Rightarrow> nat \<Rightarrow> nat \<Rightarrow> nat" where
  "boxcount Z p k =
     length (filter (\<lambda>(bi, bj). box_sum Z k bi bj > 0)
                    (List.product [0 ..< p div k] [0 ..< p div k]))"

text \<open>
  \<open>np.polyfit(x, y, 1)[0]\<close>: the slope of the least-squares line through the points.
\<close>

definition polyfit_slope :: "(real \<times> real) list \<Rightarrow> real" where
  "polyfit_slope pts =
     (let n = real (length pts);
          sx = sum_list (map fst pts); sy = sum_list (map snd pts);
          sxx = sum_list (map (\<lambda>(x, y). x * x) pts);
          sxy = sum_list (map (\<lambda>(x, y). x * y) pts)
      in (n * sxy - sx * sy) / (n * sxx - sx * sx))"

definition box_sizes :: "nat \<Rightarrow> nat list" where
  "box_sizes e = map (\<lambda>k. 2 ^ k) (rev [2 ..< Suc e])"

definition calculate_fractal_dimension :: "gray_image \<Rightarrow> real" where
  "calculate_fractal_dimension g =
     (if img_size g = 0 then 0
      else
        let Z = binarize 128 g
        in if sum_list (concat Z) = 0 then 0
           else
             let e = ceil_log2 (max (img_height g) (img_width g));
                 p = 2 ^ e;
                 sizes = box_sizes e;
                 counts = map (boxcount Z p) sizes;
                 valid = filter (\<lambda>(s, c). c > 0) (zip sizes counts)
             in if length valid < 2 then 0
                else polyfit_slope (map (\<lambda>(s, c). (ln (1 / real s), ln (real c))) valid))"

subsection \<open>Entropy\<close>

definition histogram :: "gray_image \<Rightarrow> nat list" where
  "histogram g = map (\<lambda>b. count_list (map unat (concat g)) b) [0 ..< 256]"

definition calculate_image_entropy :: "gray_image \<Rightarrow> real" where
  "calculate_image_entropy g =
     (if img_size g = 0 then 0
      else
        let hist = histogram g;
            total = real (sum_list hist);
            probs = filter (\<lambda>p. p > 0) (map (\<lambda>c. real c / total) hist)
        in - sum_list (map (\<lambda>p. p * log 2 p) probs))"

subsection \<open>Visual balance\<close>

definition weighted_x :: "gray_image \<Rightarrow> nat" where
  "weighted_x g = sum_list (map (\<lambda>row. sum_list (map2 (\<lambda>v j. unat v * j) row [0 ..< length row])) g)"

definition weighted_y :: "gray_image \<Rightarrow> nat" where
  "weighted_y g = sum_list (map2 (\<lambda>row i. sum_list (map unat row) * i) g [0 ..< length g])"

definition calculate_visual_balance_score :: "gray_image \<Rightarrow> real" where
  "calculate_visual_balance_score g =
     (if img_size g = 0 then 0
      else
        let height = img_height g; width = img_width g;
            total_luminance = pixel_sum g
        in if total_luminance = 0 then 0
           else
             let center_x = real (weighted_x g) / real total_luminance;
                 center_y = real (weighted_y g) / real total_luminance;
                 geometric_center_x = (real width - 1) / 2;
                 geometric_center_y = (real height - 1) / 2;
                 distance = sqrt ((center_x - geometric_center_x)\<^sup>2 + (center_y - geometric_center_y)\<^sup>2);
                 max_distance = sqrt (geometric_center_x\<^sup>2 + geometric_center_y\<^sup>2)
             in if max_distance = 0 then 1
                else 1 - min 1 (distance / max_distance))"

subsection \<open>Tag inference and \<open>analyze_image\<close>\<close>

text \<open>
  One analysis result. A field that is \<open>None\<close> in the dictionary, or missing from it, is
  \<open>None\<close> here; the consumers read every field with \<open>.get\<close> and treat both alike.
\<close>

record analysis =
  symmetry_horizontal :: "real option"
  symmetry_vertical :: "real option"
  whitespace_percentage :: "real option"
  aspect_ratio :: "real option"
  golden_ratio_aspect_match :: bool
  fractal_dimension :: "real option"
  entropy :: "real option"
  visual_balance_score :: "real option"
  typography_inference :: "string option"
  mood_emotion :: "string option"
  aesthetic_score :: "int option"
  aesthetic_explanation :: string

definition GOLDEN_RATIO :: real where
  "GOLDEN_RATIO = 1.61803398875"

definition infer_typography :: "real \<Rightarrow> real \<Rightarrow> real \<Rightarrow> real \<Rightarrow> string list" where
  "infer_typography ws symh symv sat =
     (let s1 = (if ws > 70 then [''light''] else []);
          s2 = s1 @ (if ws < 30 then [''bold''] else []);
          s3 = s2 @ (if symh > 0.85 \<and> symv > 0.85 then [''geometric'']
                     else if symh < 0.5 \<or> symv < 0.5 then [''expressive''] else []);
          s4 = s3 @ (if sat > 0.6 then [''display''] else if sat < 0.2 then [''serif''] else [])
      in if ''bold'' \<in> set s4 \<and> ''light'' \<in> set s4
         then (if ws < 50 then remove1 ''light'' s4 else remove1 ''bold'' s4)
         else s4)"

text \<open>
  The mood rules build a Python list; \<open>list.remove\<close> deletes the first occurrence of its
  argument, which is \<^const>\<open>remove1\<close>.
\<close>

definition infer_moods :: "real \<times> real \<times> real \<Rightarrow> real \<Rightarrow> real \<Rightarrow> real \<Rightarrow> real \<Rightarrow> string list" where
  "infer_moods avg_rgb sat ws symh symv = (case avg_rgb of (r, g, b) \<Rightarrow>
     let m1 = (if r > g \<and> r > b then (if sat > 0.5 then [''energetic''] else [''warm''])
               else if b > r \<and> b > g then (if sat > 0.5 then [''vibrant''] else [''calm''])
               else [''neutral'']);
         m2 = m1 @ (if sat > 0.7 then [''vibrant''] else if sat < 0.3 then [''muted''] else []);
         m3 = (if ws > 70
               then (let m = m2 @ [''minimalist'']
                     in if ''vibrant'' \<in> set m then remove1 ''vibrant'' m else m)
               else if ws < 30 then m2 @ [''dense''] else m2);
         avg_symmetry = (symh + symv) / 2
     in m3 @ (if avg_symmetry > 0.8 then [''balanced'', ''professional'']
              else if avg_symmetry < 0.5 then [''dynamic'', ''creative''] else []))"

text \<open>
  \<open>", ".join(set(tags))\<close>. Python fixes no order for the elements of a set; the model
  takes them in the order of their last occurrence in the list.
\<close>

fun join_tags :: "string list \<Rightarrow> string" where
  "join_tags [] = []"
| "join_tags [t] = t"
| "join_tags (t # ts) = t @ '', '' @ join_tags ts"

definition tag_string :: "string \<Rightarrow> string list \<Rightarrow> string" where
  "tag_string fallback tags = (if tags = [] then fallback else join_tags (remdups tags))"

definition get_aesthetic_score_from_gemini :: "string \<Rightarrow> int \<times> string" where
  "get_aesthetic_score_from_gemini image_data_base64 =
     (if is_infix ''test_calm.png'' image_data_base64
      then (8, ''Simulated: Clean and balanced composition, contributing to a pleasant aesthetic.'')
      else if is_infix ''test_vibrant.png'' image_data_base64
      then (7, ''Simulated: Dynamic use of color, creating a vibrant and engaging aesthetic.'')
      else if is_infix ''test_creative.png'' image_data_base64
      then (7, ''Simulated: Interesting asymmetric composition, suggesting a creative aesthetic.'')
      else if is_infix ''test_golden.png'' image_data_base64
      then (9, ''Simulated: Strong adherence to classic proportional harmony, highly aesthetic.'')
      else (5, ''Simulated: Neutral aesthetic quality.''))"

record decoded_image =
  img_array_gray :: gray_image
  img_array_rgb :: rgb_image
  img_base64 :: string

definition channel_mean :: "(rgb_pixel \<Rightarrow> 8 word) \<Rightarrow> rgb_image \<Rightarrow> real" where
  "channel_mean ch img = real (sum_list (map (\<lambda>px. unat (ch px)) (concat img))) / real (length (concat img))"

definition avg_rgb_of :: "rgb_image \<Rightarrow> real \<times> real \<times> real" where
  "avg_rgb_of img = (channel_mean fst img, channel_mean (\<lambda>px. fst (snd px)) img, channel_mean (\<lambda>px. snd (snd px)) img)"

definition avg_saturation_of :: "rgb_image \<Rightarrow> real" where
  "avg_saturation_of img = (case avg_rgb_of img of (r, g, b) \<Rightarrow>
     snd (snd (rgb_to_hls (r / 255) (g / 255) (b / 255))))"

text \<open>The result \<open>analyze_image\<close> starts from, returned as it is when the image cannot be opened.\<close>

definition initial_results :: analysis where
  "initial_results =
     \<lparr> symmetry_horizontal = None, symmetry_vertical = None, whitespace_percentage = None,
       aspect_ratio = None, golden_ratio_aspect_match = False, fractal_dimension = None,
       entropy = None, visual_balance_score = None,
       typography_inference = Some ''unknown'', mood_emotion = Some ''neutral'',
       aesthetic_score = None,
       aesthetic_explanation = ''Not yet calculated (simulated in this module)'' \<rparr>"

text \<open>
  \<open>analyze_image\<close> on what opening the path gives: \<open>None\<close> when the image cannot be opened
  or decoded. The imaging library yields images with at least one pixel. For an array
  without pixels the model returns the initial result, as the source does for height 0,
  where the first division raises and the exception is caught.
\<close>

definition analyze_image :: "decoded_image option \<Rightarrow> analysis" where
  "analyze_image file =
     (case file of
        None \<Rightarrow> initial_results
      | Some d \<Rightarrow>
          let g = img_array_gray d; rgb = img_array_rgb d;
              height = img_height rgb; width = img_width rgb
          in if height = 0 \<or> width = 0 then initial_results
             else
               let ratio = py_round_to 2 (real width / real height);
                   symh = symmetry_horizontal_of g;
                   symv = symmetry_vertical_of g;
                   ws = whitespace_percentage_of g;
                   sat = avg_saturation_of rgb;
                   aesthetic = get_aesthetic_score_from_gemini (img_base64 d)
               in \<lparr> symmetry_horizontal = Some symh, symmetry_vertical = Some symv,
                    whitespace_percentage = Some ws,
                    aspect_ratio = Some ratio,
                    golden_ratio_aspect_match =
                      (\<bar>ratio - GOLDEN_RATIO\<bar> < 0.1 \<or> \<bar>ratio - 1 / GOLDEN_RATIO\<bar> < 0.1),
                    fractal_dimension = Some (py_round_to 3 (calculate_fractal_dimension g)),
                    entropy = Some (py_round_to 3 (calculate_image_entropy g)),
                    visual_balance_score = Some (py_round_to 3 (calculate_visual_balance_score g)),
                    typography_inference = Some (tag_string ''sans-serif'' (infer_typography ws symh symv sat)),
                    mood_emotion = Some (tag_string ''neutral'' (infer_moods (avg_rgb_of rgb) sat ws symh symv)),
                    aesthetic_score = Some (fst aesthetic),
                    aesthetic_explanation = snd aesthetic \<rparr>)"

section \<open>Feature aggregation and font pairing (\<open>core/font_suggester.py\<close>)\<close>

text \<open>
  The aggregation block is repeated verbatim in \<open>layout_generator.py\<close> and
  \<open>js_component_suggester.py\<close>. A Python set of tags is modelled as a list read through
  \<^const>\<open>set\<close>.
\<close>

definition average :: "real list \<Rightarrow> real" where
  "average xs = sum_list xs / real (length xs)"

definition mean_or :: "real \<Rightarrow> real list \<Rightarrow> real" where
  "mean_or d xs = (if xs = [] then d else average xs)"

text \<open>
  The tags one record contributes: none when the field is missing, empty or equal to the
  sentinel, otherwise the stripped pieces of the comma-separated string.
\<close>

definition field_tags :: "string \<Rightarrow> string option \<Rightarrow> string list" where
  "field_tags sentinel field =
     (case field of
        None \<Rightarrow> []
      | Some s \<Rightarrow> if s = [] \<or> s = sentinel then [] else map strip (split_comma s))"

record aggregated =
  avg_whitespace :: real
  avg_h_symmetry :: real
  avg_v_symmetry :: real
  avg_fractal_dimension :: real
  avg_entropy :: real
  avg_visual_balance :: real
  avg_aesthetic_score :: real
  inferred_mood_tags_from_image :: "string list"
  inferred_typography_tags_from_image :: "string list"

definition aggregate :: "analysis list \<Rightarrow> aggregated" where
  "aggregate results =
     \<lparr> avg_whitespace =
         (let whitespaces = List.map_filter whitespace_percentage results
          in if whitespaces = [] then 0.5 else average whitespaces / 100),
       avg_h_symmetry = mean_or 0.5 (List.map_filter symmetry_horizontal results),
       avg_v_symmetry = mean_or 0.5 (List.map_filter symmetry_vertical results),
       avg_fractal_dimension = mean_or 1.5 (List.map_filter fractal_dimension results),
       avg_entropy = mean_or 4.0 (List.map_filter entropy results),
       avg_visual_balance = mean_or 0.5 (List.map_filter visual_balance_score results),
       avg_aesthetic_score =
         mean_or 5 (map real_of_int (List.map_filter aesthetic_score results)),
       inferred_mood_tags_from_image =
         concat (map (\<lambda>a. field_tags ''neutral'' (mood_emotion a)) results),
       inferred_typography_tags_from_image =
         concat (map (\<lambda>a. field_tags ''unknown'' (typography_inference a)) results) \<rparr>"

subsection \<open>Inferred brand guidelines\<close>

definition infer_layout_preference :: "aggregated \<Rightarrow> string" where
  "infer_layout_preference ag =
     (let moods = set (inferred_mood_tags_from_image ag)
      in if ''minimalist'' \<in> moods \<or> avg_whitespace ag > 0.75 then ''minimalist''
         else if ''dense'' \<in> moods \<or> avg_whitespace ag < 0.25 then ''bold''
         else if ''creative'' \<in> moods \<or> ''dynamic'' \<in> moods \<or> avg_entropy ag > 6.5 then ''modern''
         else ''classic'')"

definition infer_design_principles :: "aggregated \<Rightarrow> string list" where
  "infer_design_principles ag =
     (let moods = set (inferred_mood_tags_from_image ag);
          typos = set (inferred_typography_tags_from_image ag)
      in (if avg_h_symmetry ag > 0.85 \<and> avg_v_symmetry ag > 0.85 \<and> avg_visual_balance ag > 0.9
          then [''structured''] else [])
       @ (if ''creative'' \<in> moods \<or> ''dynamic'' \<in> moods \<or> avg_entropy ag > 6.0
          then [''organic''] else [])
       @ (if ''bold'' \<in> typos \<or> avg_whitespace ag < 0.3 then [''bold''] else [])
       @ (if ''light'' \<in> typos \<or> avg_whitespace ag > 0.7 then [''subtle''] else [])
       @ (if avg_aesthetic_score ag \<ge> 8 \<and> avg_fractal_dimension ag < 1.3 then [''clean''] else [])
       @ (if avg_fractal_dimension ag > 1.7 \<or> avg_entropy ag > 7.0 then [''complex''] else []))"

text \<open>Only the empty dictionary triggers the inference.\<close>

definition active_guidelines :: "aggregated \<Rightarrow> guidelines \<Rightarrow> guidelines" where
  "active_guidelines ag brand_guidelines =
     (if brand_guidelines = []
      then [(''layoutPreference'', JStr (infer_layout_preference ag)),
            (''designPrinciples'', JArr (map JStr (infer_design_principles ag)))]
      else brand_guidelines)"

text \<open>\<open>principle.strip().lower()\<close> raises on an element that is not a string.\<close>

primrec principle_tags :: "json list \<Rightarrow> py_error + string list" where
  "principle_tags [] = Inr []"
| "principle_tags (v # vs) =
     (case v of
        JStr s \<Rightarrow> (case principle_tags vs of Inl e \<Rightarrow> Inl e | Inr ts \<Rightarrow> Inr (lower (strip s) # ts))
      | _ \<Rightarrow> Inl AttributeError)"

definition design_principles_of :: "guidelines \<Rightarrow> py_error + string list" where
  "design_principles_of active =
     (case map_of active ''designPrinciples'' of
        Some (JArr vs) \<Rightarrow> principle_tags vs
      | _ \<Rightarrow> Inr [])"

text \<open>Python's truth value of a JSON value, and of the result of \<open>dict.get\<close>.\<close>

fun truthy :: "json \<Rightarrow> bool" where
  "truthy JNull = False"
| "truthy (JBool b) = b"
| "truthy (JNum x) = (x \<noteq> 0)"
| "truthy (JStr s) = (s \<noteq> [])"
| "truthy (JArr vs) = (vs \<noteq> [])"
| "truthy (JObj kvs) = (kvs \<noteq> [])"

definition is_set :: "json option \<Rightarrow> bool" where
  "is_set v = (case v of None \<Rightarrow> False | Some j \<Rightarrow> truthy j)"

subsection \<open>The catalogue and the match score\<close>

type_synonym font_pairing = "string \<times> string \<times> string list \<times> string list \<times> real \<times> real"

definition FONT_PAIRINGS :: "font_pairing list" where
  "FONT_PAIRINGS =
   [(''Roboto'', ''Open Sans'', [''modern'', ''professional'', ''calm'', ''balanced'', ''clean'', ''structured'', ''subtle''], [''sans-serif'', ''light'', ''geometric'', ''clean''], 0.2, 0.9),
    (''Playfair Display'', ''Lora'', [''elegant'', ''calm'', ''professional'', ''balanced'', ''subtle'', ''structured''], [''serif'', ''light'', ''classic''], 0.4, 0.8),
    (''Montserrat'', ''Lato'', [''vibrant'', ''modern'', ''playful'', ''energetic'', ''dynamic'', ''bold'', ''complex''], [''sans-serif'', ''bold'', ''geometric'', ''display''], 0.6, 0.7),
    (''Oswald'', ''Merriweather'', [''bold'', ''professional'', ''modern'', ''dense'', ''structured'', ''complex''], [''sans-serif'', ''serif'', ''bold''], 0.7, 0.75),
    (''Pacifico'', ''Quicksand'', [''playful'', ''creative'', ''vibrant'', ''dynamic'', ''organic'', ''expressive''], [''script'', ''sans-serif'', ''expressive''], 0.8, 0.6),
    (''Space Mono'', ''IBM Plex Sans'', [''techy'', ''modern'', ''professional'', ''dense'', ''structured'', ''complex''], [''monospace'', ''sans-serif'', ''geometric''], 0.7, 0.8),
    (''Merriweather'', ''Open Sans'', [''classic'', ''professional'', ''calm'', ''balanced'', ''subtle'', ''clean''], [''serif'', ''sans-serif'', ''light''], 0.3, 0.9),
    (''Lato'', ''Roboto'', [''modern'', ''professional'', ''vibrant'', ''balanced'', ''clean'', ''structured''], [''sans-serif'', ''light''], 0.25, 0.85),
    (''Rubik'', ''Noto Sans'', [''modern'', ''clean'', ''minimalist'', ''balanced'', ''structured'', ''subtle''], [''sans-serif'', ''geometric''], 0.3, 0.88),
    (''Source Code Pro'', ''Inter'', [''techy'', ''modern'', ''professional'', ''dense'', ''structured'', ''complex''], [''monospace'', ''sans-serif''], 0.65, 0.82),
    (''Dancing Script'', ''Josefin Sans'', [''elegant'', ''creative'', ''playful'', ''organic'', ''expressive''], [''script'', ''sans-serif'', ''expressive''], 0.9, 0.55),
    (''Bitter'', ''PT Sans'', [''classic'', ''professional'', ''balanced'', ''structured''], [''serif'', ''sans-serif''], 0.45, 0.8),
    (''Nunito Sans'', ''Fira Sans'', [''modern'', ''clean'', ''light'', ''minimalist'', ''subtle'', ''structured''], [''sans-serif'', ''light''], 0.2, 0.92),
    (''Anton'', ''Open Sans'', [''bold'', ''energetic'', ''vibrant'', ''dynamic'', ''complex''], [''sans-serif'', ''bold'', ''display''], 0.85, 0.65),
    (''Comfortaa'', ''Muli'', [''playful'', ''modern'', ''clean'', ''organic'', ''subtle''], [''sans-serif'', ''geometric'', ''light''], 0.35, 0.8),
    (''Fjalla One'', ''Roboto Condensed'', [''bold'', ''dense'', ''energetic'', ''structured'', ''complex''], [''sans-serif'', ''bold''], 0.75, 0.7),
    (''Poppins'', ''Raleway'', [''modern'', ''clean'', ''minimalist'', ''balanced'', ''structured''], [''sans-serif'', ''geometric'', ''light''], 0.3, 0.9),
    (''Lora'', ''Noto Serif'', [''elegant'', ''classic'', ''calm'', ''balanced'', ''subtle''], [''serif'', ''classic''], 0.4, 0.85),
    (''Bebas Neue'', ''Montserrat'', [''bold'', ''modern'', ''energetic'', ''dense'', ''complex''], [''sans-serif'', ''display'', ''bold''], 0.8, 0.68),
    (''Permanent Marker'', ''Indie Flower'', [''creative'', ''playful'', ''expressive'', ''organic''], [''script'', ''display'', ''expressive''], 0.95, 0.5)]"

text \<open>\<open>len(tags.intersection(xs))\<close>: the number of distinct tags that occur in \<open>xs\<close>.\<close>

definition count_common :: "string list \<Rightarrow> string list \<Rightarrow> nat" where
  "count_common tags xs = length (filter (\<lambda>t. t \<in> set xs) (remdups tags))"

definition bonus :: "bool \<Rightarrow> real \<Rightarrow> real" where
  "bonus c x = (if c then x else 0)"

text \<open>
  \<open>current_matches\<close> of one catalogue entry. \<open>moods\<close> and \<open>styles\<close> are the tag sets of the
  images, each joined with the design principles; \<open>bh\<close> and \<open>bb\<close> are the heading and body
  font of the brand guidelines.
\<close>

definition match_score ::
  "aggregated \<Rightarrow> string list \<Rightarrow> string list \<Rightarrow> json option \<Rightarrow> json option \<Rightarrow> font_pairing \<Rightarrow> real" where
  "match_score ag moods styles bh bb fp =
     (case fp of (heading, body, moods_in_pairing, styles_in_pairing, pairing_complexity, pairing_readability) \<Rightarrow>
        real (count_common moods moods_in_pairing) * 2
        + real (count_common styles styles_in_pairing) * 1.5
        + bonus (''clean'' \<in> set styles \<and> ''geometric'' \<in> set styles_in_pairing
                 \<and> avg_fractal_dimension ag < 1.3) 2
        + bonus (''complex'' \<in> set styles \<and> ''expressive'' \<in> set styles_in_pairing
                 \<and> avg_entropy ag > 6.5) 2
        + bonus (''structured'' \<in> set styles \<and> avg_h_symmetry ag > 0.7 \<and> avg_v_symmetry ag > 0.7
                 \<and> avg_visual_balance ag > 0.8) 1.5
        + bonus (''organic'' \<in> set styles \<and> (avg_h_symmetry ag < 0.6 \<or> avg_v_symmetry ag < 0.6)
                 \<and> ''dynamic'' \<in> set moods) 1.5
        + bonus (avg_aesthetic_score ag \<ge> 7
                 \<and> (''professional'' \<in> set moods_in_pairing \<or> ''balanced'' \<in> set moods_in_pairing)) 1
        + bonus (avg_whitespace ag < 0.4 \<and> pairing_readability > 0.8) 1
        - \<bar>avg_fractal_dimension ag - pairing_complexity * 2\<bar> * 0.5
        + (1 - \<bar>avg_entropy ag - pairing_complexity * 8\<bar>) * 0.2
        + bonus (is_set bh \<and> bh = Some (JStr heading)) 3
        + bonus (is_set bb \<and> bb = Some (JStr body)) 3)"

subsection \<open>Selection of the best pairing\<close>

text \<open>
  \<open>next((r for h, b, m, s, c, r in FONT_PAIRINGS if h == heading and b == body), 0)\<close>:
  the readability of the first catalogue entry with these fonts, or 0.
\<close>

definition next_readability :: "string \<Rightarrow> string \<Rightarrow> real" where
  "next_readability heading body =
     (case find (\<lambda>(h, b, m, s, c, r). h = heading \<and> b = body) FONT_PAIRINGS of
        Some (h, b, m, s, c, r) \<Rightarrow> r
      | None \<Rightarrow> 0)"

text \<open>
  The source subscripts that number with \<open>[5]\<close>. A Python float (and the integer 0) has no
  items: the subscription raises \<open>TypeError\<close>.
\<close>

definition number_item :: "real \<Rightarrow> nat \<Rightarrow> py_error + real" where
  "number_item x i = Inl TypeError"

type_synonym selection = "(string \<times> string) option \<times> real"

definition select_step ::
  "aggregated \<Rightarrow> string list \<Rightarrow> string list \<Rightarrow> json option \<Rightarrow> json option
     \<Rightarrow> selection \<Rightarrow> font_pairing \<Rightarrow> py_error + selection" where
  "select_step ag moods styles bh bb st fp =
     (case st of (best_match_pairing, max_matches) \<Rightarrow>
      case fp of (heading, body, rest) \<Rightarrow>
        let current_matches = match_score ag moods styles bh bb fp
        in if current_matches > max_matches then Inr (Some (heading, body), current_matches)
           else if current_matches = max_matches \<and> best_match_pairing \<noteq> None then
             (case number_item (next_readability heading body) 5 of
                Inl e \<Rightarrow> Inl e
              | Inr current_pairing_readability \<Rightarrow>
                  (case number_item (next_readability (fst (the best_match_pairing))
                                                      (snd (the best_match_pairing))) 5 of
                     Inl e \<Rightarrow> Inl e
                   | Inr best_pairing_readability \<Rightarrow>
                       if (is_set bh \<and> bh = Some (JStr heading)) \<or> (is_set bb \<and> bb = Some (JStr body))
                       then Inr (Some (heading, body), max_matches)
                       else if avg_whitespace ag < 0.4
                               \<and> current_pairing_readability > best_pairing_readability
                       then Inr (Some (heading, body), max_matches)
                       else Inr st))
           else Inr st)"

text \<open>The \<open>for\<close> loop over the catalogue; an exception ends it.\<close>

primrec select_pairing ::
  "(selection \<Rightarrow> font_pairing \<Rightarrow> py_error + selection) \<Rightarrow> font_pairing list \<Rightarrow> selection
     \<Rightarrow> py_error + selection" where
  "select_pairing step [] st = Inr st"
| "select_pairing step (fp # fps) st =
     (case step st fp of Inl e \<Rightarrow> Inl e | Inr st' \<Rightarrow> select_pairing step fps st')"

subsection \<open>Font-size scale and typographic recommendations\<close>

record font_scale =
  body :: int
  small :: int
  caption :: int
  h6 :: int
  h5 :: int
  h4 :: int
  h3 :: int
  h2 :: int
  h1 :: int
  display :: int

definition adjusted_golden_ratio :: "real \<Rightarrow> real \<Rightarrow> real \<Rightarrow> real \<Rightarrow> real" where
  "adjusted_golden_ratio ws aesthetic fractal ent =
     (let r0 = (if aesthetic \<ge> 8 then GOLDEN_RATIO + 0.07
                else if aesthetic \<le> 4 then GOLDEN_RATIO - 0.07 else GOLDEN_RATIO);
          r1 = r0 + ws * 0.03
      in if fractal > 1.7 \<or> ent > 6.5 then r1 * 0.98
         else if fractal < 1.3 \<or> ent < 3.0 then r1 * 1.02
         else r1)"

text \<open>
  With a ratio of zero the division for \<open>small\<close> raises; with a negative ratio
  \<open>ratio ** 1.5\<close> is a complex number, which \<open>round\<close> refuses.
\<close>

definition calculate_golden_ratio_font_scale ::
  "real \<Rightarrow> real \<Rightarrow> real \<Rightarrow> real \<Rightarrow> real \<Rightarrow> py_error + font_scale" where
  "calculate_golden_ratio_font_scale base_size ws aesthetic fractal ent =
     (let r = adjusted_golden_ratio ws aesthetic fractal ent
      in if r = 0 then Inl ZeroDivisionError
         else if r < 0 then Inl TypeError
         else Inr \<lparr> body = max 1 (py_round base_size),
                    small = max 1 (py_round (base_size / r)),
                    caption = max 1 (py_round (base_size / (r powr 1.5))),
                    h6 = max 1 (py_round (base_size * r)),
                    h5 = max 1 (py_round (base_size * r ^ 2)),
                    h4 = max 1 (py_round (base_size * r ^ 3)),
                    h3 = max 1 (py_round (base_size * r ^ 4)),
                    h2 = max 1 (py_round (base_size * r ^ 5)),
                    h1 = max 1 (py_round (base_size * r ^ 6)),
                    display = max 1 (py_round (base_size * r ^ 7)) \<rparr>)"

record recommendations =
  line_height :: string
  letter_spacing :: string

text \<open>\<open>font.lower()\<close> on a font taken from the brand guidelines raises unless it is a string.\<close>

definition lower_of :: "json \<Rightarrow> py_error + string" where
  "lower_of v = (case v of JStr s \<Rightarrow> Inr (lower s) | _ \<Rightarrow> Inl AttributeError)"

definition get_typographic_recommendations ::
  "json \<Rightarrow> json \<Rightarrow> real \<Rightarrow> real \<Rightarrow> real \<Rightarrow> real \<Rightarrow> string list \<Rightarrow> py_error + recommendations" where
  "get_typographic_recommendations heading_font body_font ws aesthetic fractal ent design_principles =
     (let dp = set design_principles;
          lh = (if ws > 0.6 \<or> aesthetic \<ge> 8 \<or> ''minimalist'' \<in> dp \<or> ''clean'' \<in> dp then ''relaxed''
                else if ws < 0.4 \<or> fractal > 1.7 \<or> ent > 6.5 \<or> ''dense'' \<in> dp \<or> ''complex'' \<in> dp
                then ''tight''
                else ''normal'')
      in case lower_of heading_font of
           Inl e \<Rightarrow> Inl e
         | Inr hl \<Rightarrow>
             if is_infix ''display'' hl \<or> ''bold'' \<in> dp \<or> ''expressive'' \<in> dp \<or> ''vibrant'' \<in> dp
             then Inr \<lparr> line_height = lh, letter_spacing = ''wide'' \<rparr>
             else if ''light'' \<in> dp \<or> ''geometric'' \<in> dp \<or> ''minimalist'' \<in> dp \<or> ''clean'' \<in> dp
             then Inr \<lparr> line_height = lh, letter_spacing = ''tight'' \<rparr>
             else if is_infix ''script'' hl then Inr \<lparr> line_height = lh, letter_spacing = ''normal'' \<rparr>
             else (case lower_of body_font of
                     Inl e \<Rightarrow> Inl e
                   | Inr bl \<Rightarrow> Inr \<lparr> line_height = lh, letter_spacing = ''normal'' \<rparr>))"

subsection \<open>\<open>suggest_fonts\<close>\<close>

record typography_result =
  heading_font :: json
  body_font :: json
  font_size_scale :: font_scale
  typographic_recommendations :: recommendations

text \<open>The base body size of step 3.\<close>

definition base_font_size_px :: "aggregated \<Rightarrow> real" where
  "base_font_size_px ag =
     (let b = 16 + avg_whitespace ag * 6 + avg_aesthetic_score ag / 10 * 4
      in if avg_fractal_dimension ag < 1.3 \<or> avg_entropy ag < 3.0 then b * 1.05
         else if avg_fractal_dimension ag > 1.7 \<or> avg_entropy ag > 6.5 then b * 0.95
         else b)"

definition finish ::
  "json \<Rightarrow> json \<Rightarrow> real \<Rightarrow> aggregated \<Rightarrow> string list \<Rightarrow> py_error + typography_result" where
  "finish hf bf base_size ag principles =
     (case calculate_golden_ratio_font_scale base_size (avg_whitespace ag) (avg_aesthetic_score ag)
             (avg_fractal_dimension ag) (avg_entropy ag) of
        Inl e \<Rightarrow> Inl e
      | Inr scale \<Rightarrow>
          (case get_typographic_recommendations hf bf (avg_whitespace ag) (avg_aesthetic_score ag)
                  (avg_fractal_dimension ag) (avg_entropy ag) principles of
             Inl e \<Rightarrow> Inl e
           | Inr recs \<Rightarrow>
               Inr \<lparr> heading_font = hf, body_font = bf, font_size_scale = scale,
                     typographic_recommendations = recs \<rparr>))"

definition fully_dictated :: "guidelines \<Rightarrow> bool" where
  "fully_dictated active = (is_set (map_of active ''headingFont'') \<and> is_set (map_of active ''bodyFont''))"

text \<open>
  The fonts taken from the best pairing: a font is taken over only where the brand
  guidelines set none; otherwise the default stays.
\<close>

definition choose_fonts :: "(string \<times> string) option \<Rightarrow> json option \<Rightarrow> json option \<Rightarrow> string \<times> string" where
  "choose_fonts best_match_pairing bh bb =
     (case best_match_pairing of
        None \<Rightarrow> (''Roboto'', ''Open Sans'')
      | Some (h, b) \<Rightarrow> (if \<not> is_set bh then h else ''Roboto'', if \<not> is_set bb then b else ''Open Sans''))"

definition infer_pairing ::
  "aggregated \<Rightarrow> string list \<Rightarrow> json option \<Rightarrow> json option \<Rightarrow> py_error + typography_result" where
  "infer_pairing ag principles bh bb =
     (let moods = inferred_mood_tags_from_image ag @ principles;
          styles = inferred_typography_tags_from_image ag @ principles
      in case select_pairing (select_step ag moods styles bh bb) FONT_PAIRINGS (None, - 1) of
           Inl e \<Rightarrow> Inl e
         | Inr st \<Rightarrow>
             finish (JStr (fst (choose_fonts (fst st) bh bb))) (JStr (snd (choose_fonts (fst st) bh bb)))
               (base_font_size_px ag) ag principles)"

definition suggest_fonts :: "analysis list \<Rightarrow> guidelines \<Rightarrow> py_error + typography_result" where
  "suggest_fonts image_analysis_results brand_guidelines =
     (let ag = aggregate image_analysis_results;
          active = active_guidelines ag brand_guidelines
      in case design_principles_of active of
           Inl e \<Rightarrow> Inl e
         | Inr principles \<Rightarrow>
             if fully_dictated active
             then finish (the (map_of active ''headingFont'')) (the (map_of active ''bodyFont''))
                    16 ag principles
             else infer_pairing ag principles (map_of active ''headingFont'') (map_of active ''bodyFont''))"

section \<open>The font suggester over floating-point operations\<close>

text \<open>
  The definitions above compute with exact reals. A Python float operation rounds its
  result, so a mean, a score or a base size of the program can differ from the exact value
  and fall on the other side of a threshold. The font suggester is therefore modelled a
  second time with the operations of the float type as a parameter: the same statements in
  the same order, with every literal, conversion, arithmetic operation, comparison and
  rounding taken from a record of operations. With IEEE double operations this is the
  program; with the exact operations \<open>exact_ops\<close> below it is the model above.

  An operation that can raise returns a sum: true division (\<open>ZeroDivisionError\<close>), the power
  \<open>**\<close> (overflow, or a complex result that the later \<open>round\<close> refuses with \<open>TypeError\<close>) and
  \<open>round\<close> (on an infinity or a NaN). Addition, subtraction, multiplication, \<open>abs\<close> and the
  comparisons never raise. The built-in \<open>sum\<close> of a list of floats is an operation of its own:
  it adds from the left, and from Python 3.12 on it compensates the rounding errors of the
  partial sums. The numbers held by an analysis record enter through \<open>fl_lit\<close>.
\<close>

record 'f float_ops =
  fl_of_int :: "int \<Rightarrow> 'f"
  fl_lit :: "real \<Rightarrow> 'f"
  fl_add :: "'f \<Rightarrow> 'f \<Rightarrow> 'f"
  fl_sub :: "'f \<Rightarrow> 'f \<Rightarrow> 'f"
  fl_mul :: "'f \<Rightarrow> 'f \<Rightarrow> 'f"
  fl_abs :: "'f \<Rightarrow> 'f"
  fl_sum :: "'f list \<Rightarrow> 'f"
  fl_less :: "'f \<Rightarrow> 'f \<Rightarrow> bool"
  fl_le :: "'f \<Rightarrow> 'f \<Rightarrow> bool"
  fl_eq :: "'f \<Rightarrow> 'f \<Rightarrow> bool"
  fl_div :: "'f \<Rightarrow> 'f \<Rightarrow> py_error + 'f"
  fl_pow :: "'f \<Rightarrow> 'f \<Rightarrow> py_error + 'f"
  fl_round :: "'f \<Rightarrow> py_error + int"

text \<open>Sequencing: the first exception raised in evaluation order is the one that propagates.\<close>

definition and_then :: "py_error + 'a \<Rightarrow> ('a \<Rightarrow> py_error + 'b) \<Rightarrow> py_error + 'b" where
  "and_then v f = (case v of Inl e \<Rightarrow> Inl e | Inr x \<Rightarrow> f x)"

primrec first_error :: "(py_error + 'a) list \<Rightarrow> py_error + 'a list" where
  "first_error [] = Inr []"
| "first_error (v # vs) =
     (case v of
        Inl e \<Rightarrow> Inl e
      | Inr x \<Rightarrow> (case first_error vs of Inl e \<Rightarrow> Inl e | Inr xs \<Rightarrow> Inr (x # xs)))"

subsection \<open>Aggregation\<close>

text \<open>\<open>sum(xs) / len(xs)\<close> of a non-empty list, or the default.\<close>

definition fl_mean_or :: "'f float_ops \<Rightarrow> 'f \<Rightarrow> 'f list \<Rightarrow> py_error + 'f" where
  "fl_mean_or A d xs =
     (if xs = [] then Inr d else fl_div A (fl_sum A xs) (fl_of_int A (int (length xs))))"

record 'f features =
  ft_whitespace :: 'f
  ft_h_symmetry :: 'f
  ft_v_symmetry :: 'f
  ft_fractal_dimension :: 'f
  ft_entropy :: 'f
  ft_visual_balance :: 'f
  ft_aesthetic_score :: 'f
  ft_mood_tags :: "string list"
  ft_typography_tags :: "string list"

definition present :: "'f float_ops \<Rightarrow> (analysis \<Rightarrow> real option) \<Rightarrow> analysis list \<Rightarrow> 'f list" where
  "present A field results = map (fl_lit A) (List.map_filter field results)"

text \<open>
  The seven averages in the order of the source. The aesthetic scores are Python integers,
  whose sum is exact.
\<close>

definition aggregate_fl :: "'f float_ops \<Rightarrow> analysis list \<Rightarrow> py_error + 'f features" where
  "aggregate_fl A results =
     and_then
       (first_error
          [(let whitespaces = present A whitespace_percentage results
            in if whitespaces = [] then Inr (fl_lit A 0.5)
               else and_then (fl_div A (fl_sum A whitespaces) (fl_of_int A (int (length whitespaces))))
                      (\<lambda>m. fl_div A m (fl_of_int A 100))),
           fl_mean_or A (fl_lit A 0.5) (present A symmetry_horizontal results),
           fl_mean_or A (fl_lit A 0.5) (present A symmetry_vertical results),
           fl_mean_or A (fl_lit A 1.5) (present A fractal_dimension results),
           fl_mean_or A (fl_lit A 4.0) (present A entropy results),
           fl_mean_or A (fl_lit A 0.5) (present A visual_balance_score results),
           (let scores = List.map_filter aesthetic_score results
            in if scores = [] then Inr (fl_of_int A 5)
               else fl_div A (fl_of_int A (sum_list scores)) (fl_of_int A (int (length scores))))])
       (\<lambda>m. Inr \<lparr> ft_whitespace = m ! 0, ft_h_symmetry = m ! 1, ft_v_symmetry = m ! 2,
                  ft_fractal_dimension = m ! 3, ft_entropy = m ! 4, ft_visual_balance = m ! 5,
                  ft_aesthetic_score = m ! 6,
                  ft_mood_tags = concat (map (\<lambda>a. field_tags ''neutral'' (mood_emotion a)) results),
                  ft_typography_tags =
                    concat (map (\<lambda>a. field_tags ''unknown'' (typography_inference a)) results) \<rparr>)"

subsection \<open>Inferred brand guidelines\<close>

definition infer_layout_preference_fl :: "'f float_ops \<Rightarrow> 'f features \<Rightarrow> string" where
  "infer_layout_preference_fl A ft =
     (let moods = set (ft_mood_tags ft)
      in if ''minimalist'' \<in> moods \<or> fl_less A (fl_lit A 0.75) (ft_whitespace ft) then ''minimalist''
         else if ''dense'' \<in> moods \<or> fl_less A (ft_whitespace ft) (fl_lit A 0.25) then ''bold''
         else if ''creative'' \<in> moods \<or> ''dynamic'' \<in> moods \<or> fl_less A (fl_lit A 6.5) (ft_entropy ft)
         then ''modern''
         else ''classic'')"

definition infer_design_principles_fl :: "'f float_ops \<Rightarrow> 'f features \<Rightarrow> string list" where
  "infer_design_principles_fl A ft =
     (let moods = set (ft_mood_tags ft);
          typos = set (ft_typography_tags ft)
      in (if fl_less A (fl_lit A 0.85) (ft_h_symmetry ft) \<and> fl_less A (fl_lit A 0.85) (ft_v_symmetry ft)
             \<and> fl_less A (fl_lit A 0.9) (ft_visual_balance ft)
          then [''structured''] else [])
       @ (if ''creative'' \<in> moods \<or> ''dynamic'' \<in> moods \<or> fl_less A (fl_lit A 6.0) (ft_entropy ft)
          then [''organic''] else [])
       @ (if ''bold'' \<in> typos \<or> fl_less A (ft_whitespace ft) (fl_lit A 0.3) then [''bold''] else [])
       @ (if ''light'' \<in> typos \<or> fl_less A (fl_lit A 0.7) (ft_whitespace ft) then [''subtle''] else [])
       @ (if fl_le A (fl_of_int A 8) (ft_aesthetic_score ft)
             \<and> fl_less A (ft_fractal_dimension ft) (fl_lit A 1.3)
          then [''clean''] else [])
       @ (if fl_less A (fl_lit A 1.7) (ft_fractal_dimension ft) \<or> fl_less A (fl_lit A 7.0) (ft_entropy ft)
          then [''complex''] else []))"

definition active_guidelines_fl :: "'f float_ops \<Rightarrow> 'f features \<Rightarrow> guidelines \<Rightarrow> guidelines" where
  "active_guidelines_fl A ft brand_guidelines =
     (if brand_guidelines = []
      then [(''layoutPreference'', JStr (infer_layout_preference_fl A ft)),
            (''designPrinciples'', JArr (map JStr (infer_design_principles_fl A ft)))]
      else brand_guidelines)"

subsection \<open>Match score and selection\<close>

text \<open>\<open>current_matches += x\<close> under a condition: nothing is added when it fails.\<close>

definition add_if :: "'f float_ops \<Rightarrow> bool \<Rightarrow> 'f \<Rightarrow> 'f \<Rightarrow> 'f" where
  "add_if A c x current = (if c then fl_add A current x else current)"

text \<open>
  \<open>current_matches\<close> starts as the integer 0; the first update adds an integer, the second
  turns it into a float. The updates follow in the order of the source.
\<close>

definition match_score_fl ::
  "'f float_ops \<Rightarrow> 'f features \<Rightarrow> string list \<Rightarrow> string list \<Rightarrow> json option \<Rightarrow> json option
     \<Rightarrow> font_pairing \<Rightarrow> 'f" where
  "match_score_fl A ft moods styles bh bb fp =
     (case fp of (heading, body_name, moods_in_pairing, styles_in_pairing, complexity, readability) \<Rightarrow>
        let pairing_complexity = fl_lit A complexity;
            pairing_readability = fl_lit A readability;
            c1 = fl_add A (fl_of_int A (int (count_common moods moods_in_pairing) * 2))
                   (fl_mul A (fl_of_int A (int (count_common styles styles_in_pairing))) (fl_lit A 1.5));
            c2 = add_if A (''clean'' \<in> set styles \<and> ''geometric'' \<in> set styles_in_pairing
                           \<and> fl_less A (ft_fractal_dimension ft) (fl_lit A 1.3)) (fl_lit A 2.0) c1;
            c3 = add_if A (''complex'' \<in> set styles \<and> ''expressive'' \<in> set styles_in_pairing
                           \<and> fl_less A (fl_lit A 6.5) (ft_entropy ft)) (fl_lit A 2.0) c2;
            c4 = add_if A (''structured'' \<in> set styles \<and> fl_less A (fl_lit A 0.7) (ft_h_symmetry ft)
                           \<and> fl_less A (fl_lit A 0.7) (ft_v_symmetry ft)
                           \<and> fl_less A (fl_lit A 0.8) (ft_visual_balance ft)) (fl_lit A 1.5) c3;
            c5 = add_if A (''organic'' \<in> set styles
                           \<and> (fl_less A (ft_h_symmetry ft) (fl_lit A 0.6)
                                \<or> fl_less A (ft_v_symmetry ft) (fl_lit A 0.6))
                           \<and> ''dynamic'' \<in> set moods) (fl_lit A 1.5) c4;
            c6 = add_if A (fl_le A (fl_of_int A 7) (ft_aesthetic_score ft)
                           \<and> (''professional'' \<in> set moods_in_pairing \<or> ''balanced'' \<in> set moods_in_pairing))
                   (fl_lit A 1.0) c5;
            c7 = add_if A (fl_less A (ft_whitespace ft) (fl_lit A 0.4)
                           \<and> fl_less A (fl_lit A 0.8) pairing_readability) (fl_lit A 1.0) c6;
            c8 = fl_sub A c7
                   (fl_mul A (fl_abs A (fl_sub A (ft_fractal_dimension ft)
                                          (fl_mul A pairing_complexity (fl_of_int A 2))))
                      (fl_lit A 0.5));
            c9 = fl_add A c8
                   (fl_mul A (fl_sub A (fl_of_int A 1)
                                (fl_abs A (fl_sub A (ft_entropy ft)
                                             (fl_mul A pairing_complexity (fl_of_int A 8)))))
                      (fl_lit A 0.2));
            c10 = add_if A (is_set bh \<and> bh = Some (JStr heading)) (fl_of_int A 3) c9
        in add_if A (is_set bb \<and> bb = Some (JStr body_name)) (fl_of_int A 3) c10)"

definition select_step_fl ::
  "'f float_ops \<Rightarrow> 'f features \<Rightarrow> string list \<Rightarrow> string list \<Rightarrow> json option \<Rightarrow> json option
     \<Rightarrow> (string \<times> string) option \<times> 'f \<Rightarrow> font_pairing
     \<Rightarrow> py_error + (string \<times> string) option \<times> 'f" where
  "select_step_fl A ft moods styles bh bb st fp =
     (case st of (best_match_pairing, max_matches) \<Rightarrow>
      case fp of (heading, body_name, rest) \<Rightarrow>
        let current_matches = match_score_fl A ft moods styles bh bb fp
        in if fl_less A max_matches current_matches then Inr (Some (heading, body_name), current_matches)
           else if fl_eq A current_matches max_matches \<and> best_match_pairing \<noteq> None then
             (case number_item (next_readability heading body_name) 5 of
                Inl e \<Rightarrow> Inl e
              | Inr current_pairing_readability \<Rightarrow>
                  (case number_item (next_readability (fst (the best_match_pairing))
                                                      (snd (the best_match_pairing))) 5 of
                     Inl e \<Rightarrow> Inl e
                   | Inr best_pairing_readability \<Rightarrow>
                       if (is_set bh \<and> bh = Some (JStr heading)) \<or> (is_set bb \<and> bb = Some (JStr body_name))
                       then Inr (Some (heading, body_name), max_matches)
                       else if fl_less A (ft_whitespace ft) (fl_lit A 0.4)
                               \<and> fl_less A (fl_lit A best_pairing_readability)
                                    (fl_lit A current_pairing_readability)
                       then Inr (Some (heading, body_name), max_matches)
                       else Inr st))
           else Inr st)"

primrec run_loop :: "('s \<Rightarrow> 'a \<Rightarrow> py_error + 's) \<Rightarrow> 'a list \<Rightarrow> 's \<Rightarrow> py_error + 's" where
  "run_loop step [] st = Inr st"
| "run_loop step (x # xs) st =
     (case step st x of Inl e \<Rightarrow> Inl e | Inr st' \<Rightarrow> run_loop step xs st')"

subsection \<open>Font-size scale, recommendations and \<open>suggest_fonts\<close>\<close>

definition adjusted_golden_ratio_fl :: "'f float_ops \<Rightarrow> 'f \<Rightarrow> 'f \<Rightarrow> 'f \<Rightarrow> 'f \<Rightarrow> 'f" where
  "adjusted_golden_ratio_fl A ws aesthetic fractal ent =
     (let r0 = (if fl_le A (fl_of_int A 8) aesthetic then fl_add A (fl_lit A GOLDEN_RATIO) (fl_lit A 0.07)
                else if fl_le A aesthetic (fl_of_int A 4)
                then fl_sub A (fl_lit A GOLDEN_RATIO) (fl_lit A 0.07)
                else fl_lit A GOLDEN_RATIO);
          r1 = fl_add A r0 (fl_mul A ws (fl_lit A 0.03))
      in if fl_less A (fl_lit A 1.7) fractal \<or> fl_less A (fl_lit A 6.5) ent then fl_mul A r1 (fl_lit A 0.98)
         else if fl_less A fractal (fl_lit A 1.3) \<or> fl_less A ent (fl_lit A 3.0)
         then fl_mul A r1 (fl_lit A 1.02)
         else r1)"

text \<open>\<open>round(v)\<close> of a value whose computation may itself have raised.\<close>

definition rounded :: "'f float_ops \<Rightarrow> py_error + 'f \<Rightarrow> py_error + int" where
  "rounded A v = and_then v (fl_round A)"

text \<open>
  The ten entries of the scale are evaluated in the order of the dictionary display; the
  floor of one pixel is applied afterwards.
\<close>

definition calculate_golden_ratio_font_scale_fl ::
  "'f float_ops \<Rightarrow> 'f \<Rightarrow> 'f \<Rightarrow> 'f \<Rightarrow> 'f \<Rightarrow> 'f \<Rightarrow> py_error + font_scale" where
  "calculate_golden_ratio_font_scale_fl A base_size ws aesthetic fractal ent =
     (let r = adjusted_golden_ratio_fl A ws aesthetic fractal ent;
          times_power = (\<lambda>k. and_then (fl_pow A r (fl_of_int A k)) (\<lambda>p. Inr (fl_mul A base_size p)))
      in and_then
           (first_error
              [rounded A (Inr base_size),
               rounded A (fl_div A base_size r),
               rounded A (and_then (fl_pow A r (fl_lit A 1.5)) (fl_div A base_size)),
               rounded A (Inr (fl_mul A base_size r)),
               rounded A (times_power 2),
               rounded A (times_power 3),
               rounded A (times_power 4),
               rounded A (times_power 5),
               rounded A (times_power 6),
               rounded A (times_power 7)])
           (\<lambda>px. Inr \<lparr> body = max 1 (px ! 0), small = max 1 (px ! 1), caption = max 1 (px ! 2),
                       h6 = max 1 (px ! 3), h5 = max 1 (px ! 4), h4 = max 1 (px ! 5),
                       h3 = max 1 (px ! 6), h2 = max 1 (px ! 7), h1 = max 1 (px ! 8),
                       display = max 1 (px ! 9) \<rparr>))"

definition get_typographic_recommendations_fl ::
  "'f float_ops \<Rightarrow> json \<Rightarrow> json \<Rightarrow> 'f \<Rightarrow> 'f \<Rightarrow> 'f \<Rightarrow> 'f \<Rightarrow> string list
     \<Rightarrow> py_error + recommendations" where
  "get_typographic_recommendations_fl A heading_name body_name ws aesthetic fractal ent design_principles =
     (let dp = set design_principles;
          lh = (if fl_less A (fl_lit A 0.6) ws \<or> fl_le A (fl_of_int A 8) aesthetic
                   \<or> ''minimalist'' \<in> dp \<or> ''clean'' \<in> dp then ''relaxed''
                else if fl_less A ws (fl_lit A 0.4) \<or> fl_less A (fl_lit A 1.7) fractal
                        \<or> fl_less A (fl_lit A 6.5) ent \<or> ''dense'' \<in> dp \<or> ''complex'' \<in> dp
                then ''tight''
                else ''normal'')
      in case lower_of heading_name of
           Inl e \<Rightarrow> Inl e
         | Inr hl \<Rightarrow>
             if is_infix ''display'' hl \<or> ''bold'' \<in> dp \<or> ''expressive'' \<in> dp \<or> ''vibrant'' \<in> dp
             then Inr \<lparr> line_height = lh, letter_spacing = ''wide'' \<rparr>
             else if ''light'' \<in> dp \<or> ''geometric'' \<in> dp \<or> ''minimalist'' \<in> dp \<or> ''clean'' \<in> dp
             then Inr \<lparr> line_height = lh, letter_spacing = ''tight'' \<rparr>
             else if is_infix ''script'' hl then Inr \<lparr> line_height = lh, letter_spacing = ''normal'' \<rparr>
             else (case lower_of body_name of
                     Inl e \<Rightarrow> Inl e
                   | Inr bl \<Rightarrow> Inr \<lparr> line_height = lh, letter_spacing = ''normal'' \<rparr>))"

text \<open>The base body size of step 3: \<open>16 + (whitespace * 6) + (aesthetic / 10 * 4)\<close>, then the factor.\<close>

definition base_font_size_px_fl :: "'f float_ops \<Rightarrow> 'f features \<Rightarrow> py_error + 'f" where
  "base_font_size_px_fl A ft =
     and_then (fl_div A (ft_aesthetic_score ft) (fl_of_int A 10))
       (\<lambda>q. let b = fl_add A (fl_add A (fl_of_int A 16) (fl_mul A (ft_whitespace ft) (fl_of_int A 6)))
                       (fl_mul A q (fl_of_int A 4))
             in if fl_less A (ft_fractal_dimension ft) (fl_lit A 1.3)
                   \<or> fl_less A (ft_entropy ft) (fl_lit A 3.0)
                then Inr (fl_mul A b (fl_lit A 1.05))
                else if fl_less A (fl_lit A 1.7) (ft_fractal_dimension ft)
                        \<or> fl_less A (fl_lit A 6.5) (ft_entropy ft)
                then Inr (fl_mul A b (fl_lit A 0.95))
                else Inr b)"

definition finish_fl ::
  "'f float_ops \<Rightarrow> json \<Rightarrow> json \<Rightarrow> 'f \<Rightarrow> 'f features \<Rightarrow> string list \<Rightarrow> py_error + typography_result" where
  "finish_fl A hf bf base_size ft principles =
     (case calculate_golden_ratio_font_scale_fl A base_size (ft_whitespace ft) (ft_aesthetic_score ft)
             (ft_fractal_dimension ft) (ft_entropy ft) of
        Inl e \<Rightarrow> Inl e
      | Inr scale \<Rightarrow>
          (case get_typographic_recommendations_fl A hf bf (ft_whitespace ft) (ft_aesthetic_score ft)
                  (ft_fractal_dimension ft) (ft_entropy ft) principles of
             Inl e \<Rightarrow> Inl e
           | Inr recs \<Rightarrow>
               Inr \<lparr> heading_font = hf, body_font = bf, font_size_scale = scale,
                     typographic_recommendations = recs \<rparr>))"

definition infer_pairing_fl ::
  "'f float_ops \<Rightarrow> 'f features \<Rightarrow> string list \<Rightarrow> json option \<Rightarrow> json option
     \<Rightarrow> py_error + typography_result" where
  "infer_pairing_fl A ft principles bh bb =
     (let moods = ft_mood_tags ft @ principles;
          styles = ft_typography_tags ft @ principles
      in case run_loop (select_step_fl A ft moods styles bh bb) FONT_PAIRINGS (None, fl_of_int A (- 1)) of
           Inl e \<Rightarrow> Inl e
         | Inr st \<Rightarrow>
             (case base_font_size_px_fl A ft of
                Inl e \<Rightarrow> Inl e
              | Inr base_size \<Rightarrow>
                  finish_fl A (JStr (fst (choose_fonts (fst st) bh bb)))
                    (JStr (snd (choose_fonts (fst st) bh bb))) base_size ft principles))"

definition suggest_fonts_fl ::
  "'f float_ops \<Rightarrow> analysis list \<Rightarrow> guidelines \<Rightarrow> py_error + typography_result" where
  "suggest_fonts_fl A image_analysis_results brand_guidelines =
     (case aggregate_fl A image_analysis_results of
        Inl e \<Rightarrow> Inl e
      | Inr ft \<Rightarrow>
          let active = active_guidelines_fl A ft brand_guidelines
          in case design_principles_of active of
               Inl e \<Rightarrow> Inl e
             | Inr principles \<Rightarrow>
                 if fully_dictated active
                 then finish_fl A (the (map_of active ''headingFont'')) (the (map_of active ''bodyFont''))
                        (fl_of_int A 16) ft principles
                 else infer_pairing_fl A ft principles
                        (map_of active ''headingFont'') (map_of active ''bodyFont''))"

subsection \<open>The exact operations\<close>

text \<open>
  Arithmetic without rounding. Division raises on a zero divisor, a negative base with a
  fractional exponent has no real power, rounding never fails.
\<close>

definition exact_pow :: "real \<Rightarrow> real \<Rightarrow> py_error + real" where
  "exact_pow x y =
     (if 0 \<le> y \<and> y = of_int \<lfloor>y\<rfloor> then Inr (x ^ nat \<lfloor>y\<rfloor>)
      else if x < 0 then Inl TypeError
      else if x = 0 \<and> y < 0 then Inl ZeroDivisionError
      else Inr (x powr y))"

definition exact_ops :: "real float_ops" where
  "exact_ops =
     \<lparr> fl_of_int = real_of_int, fl_lit = (\<lambda>x. x),
       fl_add = (\<lambda>x y. x + y), fl_sub = (\<lambda>x y. x - y), fl_mul = (\<lambda>x y. x * y),
       fl_abs = (\<lambda>x. \<bar>x\<bar>), fl_sum = sum_list,
       fl_less = (\<lambda>x y. x < y), fl_le = (\<lambda>x y. x \<le> y), fl_eq = (\<lambda>x y. x = y),
       fl_div = (\<lambda>x y. if y = 0 then Inl ZeroDivisionError else Inr (x / y)),
       fl_pow = exact_pow,
       fl_round = (\<lambda>x. Inr (py_round x)) \<rparr>"

text \<open>The aggregated features of the exact model, as a record of features over the reals.\<close>

definition features_of :: "aggregated \<Rightarrow> real features" where
  "features_of ag =
     \<lparr> ft_whitespace = avg_whitespace ag, ft_h_symmetry = avg_h_symmetry ag,
       ft_v_symmetry = avg_v_symmetry ag, ft_fractal_dimension = avg_fractal_dimension ag,
       ft_entropy = avg_entropy ag, ft_visual_balance = avg_visual_balance ag,
       ft_aesthetic_score = avg_aesthetic_score ag,
       ft_mood_tags = inferred_mood_tags_from_image ag,
       ft_typography_tags = inferred_typography_tags_from_image ag \<rparr>"

section \<open>Auxiliary predicates and example inputs\<close>

text \<open>A colour with every channel in the unit interval.\<close>

definition unit3 :: "real \<times> real \<times> real \<Rightarrow> bool" where
  "unit3 c = (case c of (r, g, b) \<Rightarrow> 0 \<le> r \<and> r \<le> 1 \<and> 0 \<le> g \<and> g \<le> 1 \<and> 0 \<le> b \<and> b \<le> 1)"

text \<open>The grey-scale array of a solid-colour image: \<open>h\<close> rows of \<open>w\<close> pixels of grey level \<open>g\<close>.\<close>

definition uniform :: "nat \<Rightarrow> nat \<Rightarrow> 8 word \<Rightarrow> gray_image" where
  "uniform h w g = replicate h (replicate w g)"

text \<open>
  A 2 by 2 image of the solid colour (0, 0, 100), a dark blue; its grey level under the
  ITU-R 601 weights of the imaging library is 11.
\<close>

definition navy_image :: decoded_image where
  "navy_image =
     \<lparr> img_array_gray = [[11, 11], [11, 11]],
       img_array_rgb = [[(0, 0, 100), (0, 0, 100)], [(0, 0, 100), (0, 0, 100)]],
       img_base64 = ''iVBORw0KGgo='' \<rparr>"

text \<open>A 2 by 2 image of the solid colour (128, 128, 128), grey level 128.\<close>

definition grey_image :: decoded_image where
  "grey_image =
     \<lparr> img_array_gray = [[128, 128], [128, 128]],
       img_array_rgb = [[(128, 128, 128), (128, 128, 128)], [(128, 128, 128), (128, 128, 128)]],
       img_base64 = ''iVBORw0KGgo='' \<rparr>"

text \<open>
  An analysis result as \<open>analyze_image\<close> produces them: medium whitespace and symmetry, no
  inferred style (\<open>sans-serif\<close>), the mood \<open>neutral\<close>, fractal dimension 1.4, entropy 5.6.
\<close>

definition plain_analysis :: analysis where
  "plain_analysis =
     \<lparr> symmetry_horizontal = Some 0.6, symmetry_vertical = Some 0.6,
       whitespace_percentage = Some 50, aspect_ratio = Some 1.5,
       golden_ratio_aspect_match = False, fractal_dimension = Some 1.4,
       entropy = Some 5.6, visual_balance_score = Some 0.5,
       typography_inference = Some ''sans-serif'', mood_emotion = Some ''neutral'',
       aesthetic_score = Some 5,
       aesthetic_explanation = ''Simulated: Neutral aesthetic quality.'' \<rparr>"

text \<open>An analysis result with little whitespace and a very simple image.\<close>

definition dense_analysis :: analysis where
  "dense_analysis =
     \<lparr> symmetry_horizontal = Some 0.6, symmetry_vertical = Some 0.6,
       whitespace_percentage = Some 35, aspect_ratio = Some 1.5,
       golden_ratio_aspect_match = False, fractal_dimension = Some 0.4,
       entropy = Some 1.6, visual_balance_score = Some 0.5,
       typography_inference = Some ''sans-serif'', mood_emotion = Some ''neutral'',
       aesthetic_score = Some 5,
       aesthetic_explanation = ''Simulated: Neutral aesthetic quality.'' \<rparr>"

text \<open>The first two analysis results of the font suggester's own tests.\<close>

definition calm_analysis :: analysis where
  "calm_analysis =
     \<lparr> symmetry_horizontal = Some 0.95, symmetry_vertical = Some 0.95,
       whitespace_percentage = Some 85, aspect_ratio = Some 1.5,
       golden_ratio_aspect_match = False, fractal_dimension = Some 1.1,
       entropy = Some 2.0, visual_balance_score = Some 0.98,
       typography_inference = Some ''light, geometric'',
       mood_emotion = Some ''calm, minimalist, balanced'',
       aesthetic_score = Some 9,
       aesthetic_explanation = ''Very clean and balanced.'' \<rparr>"

definition vibrant_analysis :: analysis where
  "vibrant_analysis =
     \<lparr> symmetry_horizontal = Some 0.6, symmetry_vertical = Some 0.5,
       whitespace_percentage = Some 25, aspect_ratio = Some 1.33,
       golden_ratio_aspect_match = False, fractal_dimension = Some 1.8,
       entropy = Some 7.5, visual_balance_score = Some 0.7,
       typography_inference = Some ''sans-serif, bold'',
       mood_emotion = Some ''vibrant, energetic, dense'',
       aesthetic_score = Some 7,
       aesthetic_explanation = ''Dynamic and engaging.'' \<rparr>"

text \<open>The brand guidelines of the font suggester's own third test.\<close>

definition explicit_bg :: guidelines where
  "explicit_bg = [(''headingFont'', JStr ''Georgia''), (''bodyFont'', JStr ''Verdana'')]"

section \<open>Palette extraction on empty input\<close>

text \<open>
  Claim C9. When the list of images is empty, or no image yields a pixel (every path fails
  to open or gives an empty pixel list), \<open>extract_palette\<close> does not raise and returns the
  palette \<open>#FFFFFF\<close>, \<open>#CCCCCC\<close>, \<open>#000000\<close>, no accessibility suggestion, and the harmony score
  0 with an explanation that says which of the two cases occurred. The clustering step is
  never reached, whatever it would do.
\<close>

theorem extract_palette_without_pixels:
  assumes "\<forall>img \<in> set image_paths. img = None \<or> img = Some []"
  shows "extract_palette cluster image_paths color_palette_style mode =
           Inr \<lparr> primary = ''#FFFFFF'', secondary = ''#CCCCCC'', accent = ''#000000'',
                 accessibility_suggestions = [],
                 color_harmony_score =
                   \<lparr> score = 0,
                     explanation = (if image_paths = [] then ''No images provided for color analysis.''
                                    else ''No valid pixels extracted for color analysis.'') \<rparr> \<rparr>"
proof -
  have "concat (map (\<lambda>img. case img of None \<Rightarrow> [] | Some pixels \<Rightarrow> pixels) image_paths) = []"
    using assms by (auto split: option.splits)
  then show ?thesis
    by (simp add: extract_palette_def default_palette_def)
qed

theorem extract_palette_without_pixels_witness:
  "extract_palette (\<lambda>pixels style mode. Inl TypeError) [] ''vibrant'' ''light'' =
       Inr \<lparr> primary = ''#FFFFFF'', secondary = ''#CCCCCC'', accent = ''#000000'',
             accessibility_suggestions = [],
             color_harmony_score = \<lparr> score = 0, explanation = ''No images provided for color analysis.'' \<rparr> \<rparr>
   \<and> extract_palette (\<lambda>pixels style mode. Inl TypeError) [None, Some []] ''vibrant'' ''light'' =
       Inr \<lparr> primary = ''#FFFFFF'', secondary = ''#CCCCCC'', accent = ''#000000'',
             accessibility_suggestions = [],
             color_harmony_score = \<lparr> score = 0, explanation = ''No valid pixels extracted for color analysis.'' \<rparr> \<rparr>"
  using extract_palette_without_pixels [of "[]" "\<lambda>pixels style mode. Inl TypeError" "''vibrant''" "''light''"]
        extract_palette_without_pixels [of "[None, Some []]" "\<lambda>pixels style mode. Inl TypeError" "''vibrant''" "''light''"]
  by simp

section \<open>The accessible-colour search\<close>

lemma scaled_between:
  fixes m1 m2 t :: real
  assumes "m1 \<le> m2" "0 \<le> t" "t \<le> 1"
  shows "m1 \<le> m1 + (m2 - m1) * t" "m1 + (m2 - m1) * t \<le> m2"
proof -
  have d: "0 \<le> m2 - m1" using assms by simp
  have "0 \<le> (m2 - m1) * t" using d assms by simp
  then show "m1 \<le> m1 + (m2 - m1) * t" by simp
  have "(m2 - m1) * t \<le> (m2 - m1) * 1" using d assms by (intro mult_left_mono) auto
  then show "m1 + (m2 - m1) * t \<le> m2" by simp
qed

lemma hls_v_range:
  assumes "m1 \<le> m2"
  shows "m1 \<le> hls_v m1 m2 h \<and> hls_v m1 m2 h \<le> m2"
proof -
  define hue where "hue = frac h"
  have h0: "0 \<le> hue" and h1: "hue < 1" by (simp_all add: hue_def frac_lt_1)
  consider "hue < 1 / 6" | "\<not> hue < 1 / 6" "hue < 0.5" | "\<not> hue < 0.5" "hue < 2 / 3" | "\<not> hue < 2 / 3"
    by linarith
  then show ?thesis
  proof cases
    case 1
    then have "0 \<le> hue * 6" "hue * 6 \<le> 1" using h0 by simp_all
    from scaled_between[OF assms this] 1 show ?thesis
      by (simp add: hls_v_def hue_def[symmetric] mult.assoc)
  next
    case 2
    then show ?thesis using assms by (simp add: hls_v_def hue_def[symmetric])
  next
    case 3
    then have "0 \<le> (2 / 3 - hue) * 6" "(2 / 3 - hue) * 6 \<le> 1" by simp_all
    from scaled_between[OF assms this] 3 show ?thesis
      by (simp add: hls_v_def hue_def[symmetric] mult.assoc)
  next
    case 4
    then show ?thesis using assms by (simp add: hls_v_def hue_def[symmetric])
  qed
qed

lemma hls_m_bounds:
  fixes l s :: real
  assumes "0 \<le> l" "l \<le> 1" "0 \<le> s" "s \<le> 1"
  defines "m2 \<equiv> (if l \<le> 0.5 then l * (1 + s) else l + s - l * s)"
  shows "0 \<le> 2 * l - m2" "2 * l - m2 \<le> m2" "m2 \<le> 1"
proof -
  have ls: "0 \<le> l * s" "l * s \<le> l" "l * s \<le> s"
    using assms by (simp_all add: mult_left_le mult_left_le_one_le mult_right_le_one_le)
  have s1: "0 \<le> s * (1 - l)" "s * (1 - l) \<le> 1 - l" using assms by (simp_all add: mult_left_le_one_le)
  show "0 \<le> 2 * l - m2" using ls s1 assms by (auto simp: m2_def algebra_simps)
  show "2 * l - m2 \<le> m2" using ls s1 assms by (auto simp: m2_def algebra_simps)
  show "m2 \<le> 1" using ls s1 assms by (auto simp: m2_def algebra_simps)
qed

lemma hls_to_rgb_unit:
  assumes "0 \<le> l" "l \<le> 1" "0 \<le> s" "s \<le> 1"
  shows "unit3 (hls_to_rgb h l s)"
proof (cases "s = 0")
  case True
  then show ?thesis using assms by (simp add: hls_to_rgb_def unit3_def)
next
  case False
  define m2 where "m2 = (if l \<le> 0.5 then l * (1 + s) else l + s - l * s)"
  define m1 where "m1 = 2 * l - m2"
  have b: "0 \<le> m1" "m1 \<le> m2" "m2 \<le> 1"
    using hls_m_bounds[OF assms] by (simp_all add: m1_def m2_def)
  have "0 \<le> hls_v m1 m2 x \<and> hls_v m1 m2 x \<le> 1" for x
    using hls_v_range[OF b(2), of x] b by linarith
  then show ?thesis using False
    by (simp add: hls_to_rgb_def unit3_def Let_def m1_def m2_def)
qed

lemma py_int_channel:
  assumes "0 \<le> x" "x \<le> 1"
  shows "0 \<le> py_int (x * 255) \<and> py_int (x * 255) \<le> 255"
proof -
  have "0 \<le> x * 255" "x * 255 \<le> 255" using assms by simp_all
  then show ?thesis by (simp add: py_int_def floor_le_iff le_floor_iff)
qed

lemma rgb_of_norm_valid: "unit3 c \<Longrightarrow> valid_rgb (rgb_of_norm c)"
  by (cases c) (simp add: unit3_def rgb_of_norm_def valid_rgb_def py_int_channel)

lemma rgb_to_hls_saturation:
  assumes "0 \<le> r" "r \<le> 1" "0 \<le> g" "g \<le> 1" "0 \<le> b" "b \<le> 1"
  shows "0 \<le> snd (snd (rgb_to_hls r g b)) \<and> snd (snd (rgb_to_hls r g b)) \<le> 1"
proof -
  define maxc where "maxc = max r (max g b)"
  define minc where "minc = min r (min g b)"
  have mm: "0 \<le> minc" "minc \<le> maxc" "maxc \<le> 1" using assms by (auto simp: maxc_def minc_def)
  show ?thesis
  proof (cases "minc = maxc")
    case True
    then show ?thesis by (simp add: rgb_to_hls_def maxc_def minc_def Let_def)
  next
    case False
    then have lt: "minc < maxc" using mm by simp
    have a: "0 \<le> (maxc - minc) / (maxc + minc) \<and> (maxc - minc) / (maxc + minc) \<le> 1"
      using mm lt by (simp add: divide_le_eq)
    have b: "(maxc + minc) / 2 > 0.5 \<Longrightarrow>
             0 \<le> (maxc - minc) / (2 - maxc - minc) \<and> (maxc - minc) / (2 - maxc - minc) \<le> 1"
      using mm lt by (simp add: divide_le_eq)
    show ?thesis using False a b
      by (auto simp add: rgb_to_hls_def maxc_def[symmetric] minc_def[symmetric] Let_def)
  qed
qed

lemma hls_of_rgb_saturation:
  assumes "valid_rgb c"
  shows "0 \<le> snd (snd (hls_of_rgb c)) \<and> snd (snd (hls_of_rgb c)) \<le> 1"
proof -
  obtain r g b where c: "c = (r, g, b)" by (cases c)
  have "0 \<le> real_of_int r / 255" "real_of_int r / 255 \<le> 1"
       "0 \<le> real_of_int g / 255" "real_of_int g / 255 \<le> 1"
       "0 \<le> real_of_int b / 255" "real_of_int b / 255 \<le> 1"
    using assms by (simp_all add: c valid_rgb_def)
  from rgb_to_hls_saturation[OF this] show ?thesis by (simp add: c hls_of_rgb_def)
qed

text \<open>
  The loop invariant: the current colour is a valid RGB triple, and after \<open>n\<close> remaining
  iterations at most \<open>n\<close> adjustments have been made.
\<close>

lemma adjust_lightness_inv:
  assumes "0 \<le> s" "s \<le> 1" "valid_rgb cur"
  shows "valid_rgb (fst (adjust_lightness n h s bg t l cur))
         \<and> snd (adjust_lightness n h s bg t l cur) \<le> n"
  using assms(3)
proof (induction n arbitrary: l cur)
  case 0
  then show ?case by simp
next
  case (Suc n)
  show ?case
  proof (cases "get_contrast_ratio cur bg \<ge> t")
    case True
    then show ?thesis using Suc.prems by simp
  next
    case False
    define l' where
      "l' = max 0 (min 1 (if get_luminance cur < get_luminance bg then l + 0.05 else l - 0.05))"
    have "0 \<le> l'" "l' \<le> 1" by (simp_all add: l'_def)
    then have "valid_rgb (rgb_of_norm (hls_to_rgb h l' s))"
      using assms(1,2) by (intro rgb_of_norm_valid hls_to_rgb_unit)
    from Suc.IH[OF this, of l'] False show ?thesis
      by (simp add: Let_def l'_def)
  qed
qed

text \<open>
  Claim C10. For every RGB colour \<open>original_rgb\<close> (channels in 0..255), every background
  and every target contrast, \<open>suggest_accessible_color\<close> makes at most 20 lightness
  adjustments and returns a triple whose channels all lie in 0..255.
\<close>

theorem suggest_accessible_color_bounded:
  assumes "valid_rgb original_rgb"
  shows "valid_rgb (suggest_accessible_color original_rgb background_rgb target_contrast)
         \<and> snd (suggest_accessible_color_steps original_rgb background_rgb target_contrast) \<le> 20"
proof -
  obtain h l s where hls: "hls_of_rgb original_rgb = (h, l, s)"
    by (cases "hls_of_rgb original_rgb")
  have "0 \<le> s \<and> s \<le> 1" using hls_of_rgb_saturation[OF assms] by (simp add: hls)
  then have "valid_rgb (fst (adjust_lightness max_attempts h s background_rgb target_contrast l original_rgb))
     \<and> snd (adjust_lightness max_attempts h s background_rgb target_contrast l original_rgb) \<le> max_attempts"
    using adjust_lightness_inv assms by blast
  then show ?thesis
    by (simp add: suggest_accessible_color_def suggest_accessible_color_steps_def hls max_attempts_def)
qed

theorem suggest_accessible_color_bounded_witness:
  "valid_rgb (119, 119, 119)
   \<and> valid_rgb (suggest_accessible_color (119, 119, 119) (255, 255, 255) 4.5)
   \<and> snd (suggest_accessible_color_steps (119, 119, 119) (255, 255, 255) 4.5) \<le> 20"
  using suggest_accessible_color_bounded [of "(119, 119, 119)" "(255, 255, 255)" "4.5"]
  by (simp add: valid_rgb_def)

section \<open>Metrics of solid-colour images\<close>
























lemma one_row_image_symmetry:
  "symmetry_horizontal_of [[255, 255]] = 0 \<and> symmetry_vertical_of [[255], [255]] = 0"
  by (simp add: symmetry_horizontal_of_def symmetry_vertical_of_def img_height_def img_width_def)

lemma ceil_log2_5: "ceil_log2 5 = 3"
  by (simp add: ceil_log2.simps[of 5] ceil_log2.simps[of 3] ceil_log2.simps[of 2] ceil_log2.simps[of "Suc 0"])

lemma padded_dark:
  "unat g < 128 \<Longrightarrow> padded_at (binarize 128 (uniform h w g)) i j = (if i < h \<and> j < w then 1 else 0)"
  by (cases "i < h") (simp_all add: padded_at_def binarize_def uniform_def)

lemma sum_list_pos_iff:
  fixes f :: "'a \<Rightarrow> nat"
  shows "0 < sum_list (map f xs) \<longleftrightarrow> (\<exists>x \<in> set xs. 0 < f x)"
  by (induction xs) auto

lemma box_sum_dark:
  assumes "unat g < 128" "0 < k"
  shows "0 < box_sum (binarize 128 (uniform h w g)) k bi bj \<longleftrightarrow> bi * k < h \<and> bj * k < w"
proof
  assume "0 < box_sum (binarize 128 (uniform h w g)) k bi bj"
  then obtain i j where "bi * k \<le> i" "i < h" "bj * k \<le> j" "j < w"
    by (auto simp: box_sum_def sum_list_pos_iff padded_dark[OF assms(1)] split: if_splits)
  then show "bi * k < h \<and> bj * k < w" by simp
next
  assume a: "bi * k < h \<and> bj * k < w"
  have "bi * k \<in> set [bi * k ..< bi * k + k]" "bj * k \<in> set [bj * k ..< bj * k + k]"
    using assms(2) by simp_all
  then show "0 < box_sum (binarize 128 (uniform h w g)) k bi bj"
    unfolding box_sum_def sum_list_pos_iff using a padded_dark[OF assms(1), of h w]
    by (intro bexI[of _ "bi * k"] bexI[of _ "bj * k"]) simp_all
qed

lemma boxcount_dark:
  assumes "unat g < 128" "0 < k"
  shows "boxcount (binarize 128 (uniform h w g)) p k
         = length (filter (\<lambda>(bi, bj). bi * k < h \<and> bj * k < w) (List.product [0 ..< p div k] [0 ..< p div k]))"
  by (simp add: boxcount_def box_sum_dark[OF assms])

lemma boxes_5: "map (boxcount (binarize 128 (uniform 5 5 0)) 8) [8, 4] = [1, 4]"
  by (simp add: boxcount_dark upt_rec)

lemma slope_two: "polyfit_slope [(ln (1 / 8), ln 1), (ln (1 / 4), ln 4)] = 2"
proof -
  have l8: "ln (8::real) = 3 * ln 2" using ln_realpow[of 2 3] by simp
  have l4: "ln (4::real) = 2 * ln 2" using ln_realpow[of 2 2] by simp
  have pos: "ln (2::real) > 0" by simp
  have x1: "ln (1 / 8 :: real) = - 3 * ln 2" using l8 by (simp add: ln_div)
  have x2: "ln (1 / 4 :: real) = - 2 * ln 2" using l4 by (simp add: ln_div)
  show ?thesis using pos
    by (simp add: polyfit_slope_def x1 x2 l4 field_simps power2_eq_square)
qed

text \<open>
  A solid black image of 5 by 5 pixels is padded to 8 by 8; its one box of side 8 and its
  four boxes of side 4 are all occupied, and the fitted slope is 2.
\<close>

lemma dark_image_fractal_dimension: "calculate_fractal_dimension (uniform 5 5 0) = 2"
proof -
  have s: "sum_list (concat (binarize 128 (uniform 5 5 0))) \<noteq> 0"
    by (simp add: binarize_def uniform_def numeral_eq_Suc)
  have d: "img_size (uniform 5 5 0 :: gray_image) = 25" "img_height (uniform 5 5 0 :: gray_image) = 5"
      "img_width (uniform 5 5 0 :: gray_image) = 5"
    by (simp_all add: img_size_def img_height_def img_width_def uniform_def numeral_eq_Suc)
  have b: "box_sizes 3 = [8, 4]" by (simp add: box_sizes_def upt_rec numeral_eq_Suc)
  show ?thesis
    using slope_two s
    by (simp add: calculate_fractal_dimension_def d Let_def ceil_log2_5 b boxes_5[simplified])
qed

section \<open>Symmetry on unsigned bytes\<close>

text \<open>
  Claim C4. On the image of one column with the grey levels 10 above 20 the difference
  \<open>10 - 20\<close> is taken in \<open>uint8\<close> and is 246, so the horizontal symmetry is
  \<open>1 - 246 / 255\<close>; the absolute difference is 10 and the claimed score \<open>1 - 10 / 255\<close>.
  The same holds for the vertical symmetry of the transposed image.
\<close>

theorem symmetry_difference_wraps:
  "symmetry_horizontal_of [[10], [20]] = 1 - 246 / 255
   \<and> symmetry_horizontal_of [[10], [20]] \<noteq> 1 - \<bar>10 - 20\<bar> / (255 * 1)
   \<and> symmetry_vertical_of [[10, 20]] = 1 - 246 / 255
   \<and> symmetry_horizontal_of [[20], [10]] = 1 - \<bar>20 - 10\<bar> / (255 * 1)"
  by (simp add: symmetry_horizontal_of_def symmetry_vertical_of_def img_height_def img_width_def
      array_sub_def np_abs_def pixel_sum_def)

section \<open>Mood tags of an analysed image\<close>

lemmas metric_defs = img_height_def img_width_def img_size_def array_sub_def np_abs_def
  pixel_sum_def symmetry_horizontal_of_def symmetry_vertical_of_def whitespace_percentage_of_def
  count_pixels_def py_round_to_def py_round_def avg_saturation_of_def avg_rgb_of_def
  channel_mean_def rgb_to_hls_def

lemma navy_metrics:
  "whitespace_percentage_of (img_array_gray navy_image) = 100"
  "symmetry_horizontal_of (img_array_gray navy_image) = 1"
  "symmetry_vertical_of (img_array_gray navy_image) = 1"
  "avg_saturation_of (img_array_rgb navy_image) = 1"
  "avg_rgb_of (img_array_rgb navy_image) = (0, 0, 100)"
  by (simp_all add: navy_image_def metric_defs Let_def)

lemma navy_moods:
  "infer_moods (0, 0, 100) 1 100 1 1 = [''vibrant'', ''minimalist'', ''balanced'', ''professional'']"
  by (simp add: infer_moods_def)

lemma navy_mood_emotion:
  "mood_emotion (analyze_image (Some navy_image)) = Some ''vibrant, minimalist, balanced, professional''"
proof -
  have "img_height (img_array_rgb navy_image) \<noteq> 0" "img_width (img_array_rgb navy_image) \<noteq> 0"
    by (simp_all add: navy_image_def img_height_def img_width_def)
  then show ?thesis
    by (simp add: analyze_image_def Let_def navy_metrics navy_moods tag_string_def)
qed

text \<open>
  Claim C7. The solid dark-blue image has more than 70 percent whitespace, so the mood
  rules add \<open>minimalist\<close>; \<open>vibrant\<close> was appended twice (blue dominates with saturation
  above 0.5, and the saturation is above 0.7), \<open>list.remove\<close> deletes one occurrence, and
  the final tag set holds both \<open>minimalist\<close> and \<open>vibrant\<close>.
\<close>

theorem minimalist_and_vibrant_together:
  "''minimalist'' \<in> set (field_tags ''neutral'' (mood_emotion (analyze_image (Some navy_image))))
   \<and> ''vibrant'' \<in> set (field_tags ''neutral'' (mood_emotion (analyze_image (Some navy_image))))
   \<and> whitespace_percentage (analyze_image (Some navy_image)) = Some 100"
proof -
  have "img_height (img_array_rgb navy_image) \<noteq> 0" "img_width (img_array_rgb navy_image) \<noteq> 0"
    by (simp_all add: navy_image_def img_height_def img_width_def)
  then have "whitespace_percentage (analyze_image (Some navy_image)) = Some 100"
    by (simp add: analyze_image_def Let_def navy_metrics)
  then show ?thesis
    by (simp add: navy_mood_emotion field_tags_def strip_def is_space_def)
qed

section \<open>Aggregated tag sets\<close>

lemma grey_metrics:
  "whitespace_percentage_of (img_array_gray grey_image) = 0"
  "symmetry_horizontal_of (img_array_gray grey_image) = 1"
  "symmetry_vertical_of (img_array_gray grey_image) = 1"
  "avg_saturation_of (img_array_rgb grey_image) = 0"
  "avg_rgb_of (img_array_rgb grey_image) = (128, 128, 128)"
  by (simp_all add: grey_image_def metric_defs Let_def)

lemma grey_mood_emotion:
  "mood_emotion (analyze_image (Some grey_image)) = Some ''neutral, muted, dense, balanced, professional''"
proof -
  have "img_height (img_array_rgb grey_image) \<noteq> 0" "img_width (img_array_rgb grey_image) \<noteq> 0"
    by (simp_all add: grey_image_def img_height_def img_width_def)
  then show ?thesis
    by (simp add: analyze_image_def Let_def grey_metrics infer_moods_def tag_string_def)
qed

theorem neutral_in_aggregated_moods_counterexample:
  "''neutral'' \<in> set (inferred_mood_tags_from_image (aggregate [analyze_image (Some grey_image)]))"
  by (simp add: aggregate_def grey_mood_emotion field_tags_def strip_def is_space_def)

lemma set_field_tags:
  "set (field_tags sentinel field)
     = (case field of None \<Rightarrow> {} | Some s \<Rightarrow> if s = [] \<or> s = sentinel then {} else strip ` set (split_comma s))"
  by (cases field) (simp_all add: field_tags_def)

text \<open>
  Claim C8, as amended. The aggregated mood (typography) tags are the union, over the
  records whose mood (typography) string is present, not empty and not equal as a whole to
  \<open>neutral\<close> (\<open>unknown\<close>), of the stripped pieces of the comma-separated string. A piece
  \<open>neutral\<close> of a longer string is kept.
\<close>

theorem aggregated_tags_union:
  "set (inferred_mood_tags_from_image (aggregate results))
     = (\<Union>a \<in> set results.
          case mood_emotion a of
            None \<Rightarrow> {}
          | Some s \<Rightarrow> if s = [] \<or> s = ''neutral'' then {} else strip ` set (split_comma s))
   \<and> set (inferred_typography_tags_from_image (aggregate results))
     = (\<Union>a \<in> set results.
          case typography_inference a of
            None \<Rightarrow> {}
          | Some s \<Rightarrow> if s = [] \<or> s = ''unknown'' then {} else strip ` set (split_comma s))"
  by (simp only: aggregate_def aggregated.simps set_concat set_map image_image set_field_tags)

theorem aggregated_tags_union_witness:
  "set (inferred_mood_tags_from_image (aggregate [initial_results, analyze_image (Some grey_image)]))
     = {''neutral'', ''muted'', ''dense'', ''balanced'', ''professional''}"
proof -
  have i: "mood_emotion initial_results = Some ''neutral''"
    by (simp add: initial_results_def)
  have "set (inferred_mood_tags_from_image (aggregate [initial_results, analyze_image (Some grey_image)]))
     = (\<Union>a \<in> set [initial_results, analyze_image (Some grey_image)].
          case mood_emotion a of
            None \<Rightarrow> {}
          | Some s \<Rightarrow> if s = [] \<or> s = ''neutral'' then {} else strip ` set (split_comma s))"
    using aggregated_tags_union [of "[initial_results, analyze_image (Some grey_image)]"]
    by (rule conjunct1)
  then show ?thesis
    by (simp add: i grey_mood_emotion strip_def is_space_def)
qed

section \<open>Brand guidelines read from a file\<close>

text \<open>
  The parser on the documents of its own tests: the six recognised keys of the first test
  are kept and its \<open>invalidKey\<close> is dropped without a message; the three malformed values
  of the fourth test are dropped, each with its warning.
\<close>

lemma parser_on_valid_test_document:
  "parse_brand_guidelines
     (Document (JObj [(''primaryColor'', JStr ''#1A73E8''), (''secondaryColor'', JStr ''#F0F0F0''),
                      (''accentColor'', JStr ''#EA4335''), (''headingFont'', JStr ''Roboto''),
                      (''bodyFont'', JStr ''Open Sans''), (''layoutPreference'', JStr ''minimalist''),
                      (''invalidKey'', JNum 123)]))
   = ([(''primaryColor'', JStr ''#1A73E8''), (''secondaryColor'', JStr ''#F0F0F0''),
       (''accentColor'', JStr ''#EA4335''), (''headingFont'', JStr ''Roboto''),
       (''bodyFont'', JStr ''Open Sans''), (''layoutPreference'', JStr ''minimalist'')],
      [LoadedMessage])"
  by (simp add: parse_brand_guidelines_def validate_def check_key_def is_hex_color_def
      is_font_name_def is_layout_preference_def)

lemma parser_on_invalid_test_document:
  "parse_brand_guidelines
     (Document (JObj [(''primaryColor'', JStr ''not_a_hex''), (''headingFont'', JStr ''''),
                      (''layoutPreference'', JStr ''unknown_style'')]))
   = ([], [InvalidFormatWarning ''primaryColor'', InvalidFormatWarning ''headingFont'',
           InvalidLayoutWarning, LoadedMessage])"
  by (simp add: parse_brand_guidelines_def validate_def check_key_def is_hex_color_def
      is_font_name_def is_layout_preference_def)

text \<open>
  Claim C5. On a document with a valid primary colour, well-formed design principles and
  an unrecognised key, the parser keeps the colour only: \<open>designPrinciples\<close> is dropped, and
  neither it nor the unrecognised key is reported; the only message is the success message.
\<close>

theorem parser_drops_design_principles:
  "parse_brand_guidelines
     (Document (JObj [(''primaryColor'', JStr ''#1A73E8''),
                      (''designPrinciples'', JArr [JStr ''clean'', JStr ''modern'']),
                      (''invalidKey'', JNum 123)]))
   = ([(''primaryColor'', JStr ''#1A73E8'')], [LoadedMessage])"
  by (simp add: parse_brand_guidelines_def validate_def check_key_def is_hex_color_def)

section \<open>Font pairing selection\<close>

lemmas tag_defs = field_tags_def strip_def is_space_def

lemmas inference_defs = active_guidelines_def infer_layout_preference_def
  infer_design_principles_def design_principles_of_def fully_dictated_def is_set_def

lemmas selection_defs = infer_pairing_def FONT_PAIRINGS_def select_step_def match_score_def
  count_common_def bonus_def number_item_def

lemma aggregate_plain:
  "aggregate [plain_analysis] =
     \<lparr> avg_whitespace = 0.5, avg_h_symmetry = 0.6, avg_v_symmetry = 0.6,
       avg_fractal_dimension = 1.4, avg_entropy = 5.6, avg_visual_balance = 0.5,
       avg_aesthetic_score = 5, inferred_mood_tags_from_image = [],
       inferred_typography_tags_from_image = [''sans-serif''] \<rparr>"
  by (simp add: aggregate_def plain_analysis_def List.map_filter_simps mean_or_def average_def tag_defs)

lemma aggregate_dense:
  "aggregate [dense_analysis] =
     \<lparr> avg_whitespace = 0.35, avg_h_symmetry = 0.6, avg_v_symmetry = 0.6,
       avg_fractal_dimension = 0.4, avg_entropy = 1.6, avg_visual_balance = 0.5,
       avg_aesthetic_score = 5, inferred_mood_tags_from_image = [],
       inferred_typography_tags_from_image = [''sans-serif''] \<rparr>"
  by (simp add: aggregate_def dense_analysis_def List.map_filter_simps mean_or_def average_def tag_defs)

text \<open>
  The branch of the loop that breaks ties never completes: whatever the scores, the fonts
  and the whitespace, reaching it raises \<open>TypeError\<close>.
\<close>

lemma select_step_tie_raises:
  assumes "match_score ag moods styles bh bb fp = max_matches"
  shows "select_step ag moods styles bh bb (Some best, max_matches) fp = Inl TypeError"
  using assms by (cases fp) (simp add: select_step_def number_item_def)

text \<open>
  Claim C1. For the analysis result \<open>plain_analysis\<close> and no brand guidelines the entries
  Oswald/Merriweather and Space Mono/IBM Plex Sans both score 1.7, the maximum, and
  \<open>suggest_fonts\<close> raises \<open>TypeError\<close> instead of returning a result.
\<close>

theorem suggest_fonts_raises:
  "suggest_fonts [plain_analysis] [] = Inl TypeError"
  by (simp add: suggest_fonts_def aggregate_plain inference_defs selection_defs)

text \<open>
  Claim C2. For the analysis result \<open>dense_analysis\<close> (whitespace 0.35) and no brand
  guidelines the entries Roboto/Open Sans (body readability 0.9) and Nunito Sans/Fira Sans
  (0.92) tie at the maximal score 2.7. The tie-break should keep the more readable Nunito
  Sans/Fira Sans; the selection raises \<open>TypeError\<close> and yields no pairing.
\<close>

theorem tie_break_raises:
  "match_score (aggregate [dense_analysis]) [] [''sans-serif''] None None (FONT_PAIRINGS ! 0) = 2.7
   \<and> match_score (aggregate [dense_analysis]) [] [''sans-serif''] None None (FONT_PAIRINGS ! 12) = 2.7
   \<and> select_pairing (select_step (aggregate [dense_analysis]) [] [''sans-serif''] None None)
         FONT_PAIRINGS (None, - 1) = Inl TypeError
   \<and> suggest_fonts [dense_analysis] [] = Inl TypeError"
  by (simp add: suggest_fonts_def aggregate_dense inference_defs selection_defs)

section \<open>Agreement of the two models\<close>

text \<open>
  With the exact operations the font suggester over float operations is the exact model,
  exceptions included.
\<close>

lemma exact_ops_simps:
  "fl_of_int exact_ops = real_of_int" "fl_lit exact_ops = (\<lambda>x. x)"
  "fl_add exact_ops = (\<lambda>x y. x + y)" "fl_sub exact_ops = (\<lambda>x y. x - y)"
  "fl_mul exact_ops = (\<lambda>x y. x * y)" "fl_abs exact_ops = (\<lambda>x. \<bar>x\<bar>)"
  "fl_sum exact_ops = sum_list"
  "fl_less exact_ops = (\<lambda>x y. x < y)" "fl_le exact_ops = (\<lambda>x y. x \<le> y)"
  "fl_eq exact_ops = (\<lambda>x y. x = y)"
  "fl_div exact_ops = (\<lambda>x y. if y = 0 then Inl ZeroDivisionError else Inr (x / y))"
  "fl_pow exact_ops = exact_pow" "fl_round exact_ops = (\<lambda>x. Inr (py_round x))"
  by (simp_all add: exact_ops_def)

lemma features_of_simps:
  "ft_whitespace (features_of ag) = avg_whitespace ag"
  "ft_h_symmetry (features_of ag) = avg_h_symmetry ag"
  "ft_v_symmetry (features_of ag) = avg_v_symmetry ag"
  "ft_fractal_dimension (features_of ag) = avg_fractal_dimension ag"
  "ft_entropy (features_of ag) = avg_entropy ag"
  "ft_visual_balance (features_of ag) = avg_visual_balance ag"
  "ft_aesthetic_score (features_of ag) = avg_aesthetic_score ag"
  "ft_mood_tags (features_of ag) = inferred_mood_tags_from_image ag"
  "ft_typography_tags (features_of ag) = inferred_typography_tags_from_image ag"
  by (simp_all add: features_of_def)

lemma fl_mean_or_exact: "fl_mean_or exact_ops d xs = Inr (mean_or d xs)"
  unfolding fl_mean_or_def exact_ops_simps by (simp add: mean_or_def average_def)

lemma present_exact: "present exact_ops field results = List.map_filter field results"
  unfolding present_def exact_ops_simps by simp

lemma sum_list_of_int: "sum_list (map real_of_int xs) = real_of_int (sum_list xs)"
  by (induction xs) simp_all

lemma aggregate_fl_exact: "aggregate_fl exact_ops results = Inr (features_of (aggregate results))"
proof -
  have w: "(let whitespaces = present exact_ops whitespace_percentage results
            in if whitespaces = [] then Inr (fl_lit exact_ops 0.5)
               else and_then (fl_div exact_ops (fl_sum exact_ops whitespaces)
                                (fl_of_int exact_ops (int (length whitespaces))))
                      (\<lambda>m. fl_div exact_ops m (fl_of_int exact_ops 100)))
           = Inr (avg_whitespace (aggregate results))"
    unfolding present_exact exact_ops_simps
    by (simp add: aggregate_def Let_def and_then_def average_def)
  have a: "(let scores = List.map_filter aesthetic_score results
            in if scores = [] then Inr (fl_of_int exact_ops 5)
               else fl_div exact_ops (fl_of_int exact_ops (sum_list scores))
                      (fl_of_int exact_ops (int (length scores))))
           = Inr (avg_aesthetic_score (aggregate results))"
    unfolding exact_ops_simps
    by (simp add: aggregate_def Let_def mean_or_def average_def sum_list_of_int)
  have l: "fl_lit exact_ops x = x" for x by (simp add: exact_ops_simps)
  show ?thesis
    unfolding aggregate_fl_def w a
    unfolding fl_mean_or_exact present_exact l
    by (simp add: and_then_def features_of_def aggregate_def)
qed

lemma infer_layout_preference_exact:
  "infer_layout_preference_fl exact_ops (features_of ag) = infer_layout_preference ag"
  unfolding infer_layout_preference_fl_def infer_layout_preference_def exact_ops_simps features_of_simps
  by (rule refl)

lemma infer_design_principles_exact:
  "infer_design_principles_fl exact_ops (features_of ag) = infer_design_principles ag"
  unfolding infer_design_principles_fl_def infer_design_principles_def exact_ops_simps features_of_simps
  by (simp cong: if_cong)

lemma active_guidelines_exact:
  "active_guidelines_fl exact_ops (features_of ag) bg = active_guidelines ag bg"
  by (simp add: active_guidelines_fl_def active_guidelines_def infer_layout_preference_exact
      infer_design_principles_exact)

lemma add_if_exact: "add_if exact_ops c x current = current + bonus c x"
  unfolding add_if_def exact_ops_simps by (simp add: bonus_def)

lemma match_score_exact:
  "match_score_fl exact_ops (features_of ag) moods styles bh bb fp = match_score ag moods styles bh bb fp"
  unfolding match_score_fl_def match_score_def Let_def add_if_exact exact_ops_simps features_of_simps
  by (simp split: prod.splits)

lemma select_step_exact:
  "select_step_fl exact_ops (features_of ag) moods styles bh bb st fp
     = select_step ag moods styles bh bb st fp"
  unfolding select_step_fl_def select_step_def match_score_exact exact_ops_simps features_of_simps
  by (rule refl)

lemma run_loop_select: "run_loop step fps st = select_pairing step fps st"
  by (induction fps arbitrary: st) (simp_all split: sum.splits)

lemma adjusted_golden_ratio_exact:
  "adjusted_golden_ratio_fl exact_ops ws a f e = adjusted_golden_ratio ws a f e"
  unfolding adjusted_golden_ratio_fl_def adjusted_golden_ratio_def exact_ops_simps
  by (simp cong: if_cong add: Let_def)


lemma exact_pow_nat: "exact_pow x (real_of_int (int k)) = Inr (x ^ k)"
  by (simp add: exact_pow_def)

lemma scale_exact:
  "calculate_golden_ratio_font_scale_fl exact_ops b ws a f e = calculate_golden_ratio_font_scale b ws a f e"
proof -
  define r where "r = adjusted_golden_ratio ws a f e"
  have pw: "exact_pow r (real_of_int 2) = Inr (r ^ 2)" "exact_pow r (real_of_int 3) = Inr (r ^ 3)"
    "exact_pow r (real_of_int 4) = Inr (r ^ 4)" "exact_pow r (real_of_int 5) = Inr (r ^ 5)"
    "exact_pow r (real_of_int 6) = Inr (r ^ 6)" "exact_pow r (real_of_int 7) = Inr (r ^ 7)"
    using exact_pow_nat[of r 2] exact_pow_nat[of r 3] exact_pow_nat[of r 4] exact_pow_nat[of r 5]
      exact_pow_nat[of r 6] exact_pow_nat[of r 7] by simp_all
  consider "r = 0" | "r < 0" | "0 < r" by linarith
  then show ?thesis
  proof cases
    case 1
    then show ?thesis
      unfolding calculate_golden_ratio_font_scale_fl_def calculate_golden_ratio_font_scale_def
        adjusted_golden_ratio_exact r_def[symmetric] Let_def exact_ops_simps rounded_def
      by (simp add: and_then_def)
  next
    case 2
    then have "exact_pow r 1.5 = Inl TypeError" by (simp add: exact_pow_def)
    with 2 show ?thesis
      unfolding calculate_golden_ratio_font_scale_fl_def calculate_golden_ratio_font_scale_def
        adjusted_golden_ratio_exact r_def[symmetric] Let_def exact_ops_simps rounded_def
      by (simp add: and_then_def)
  next
    case 3
    then have "exact_pow r 1.5 = Inr (r powr 1.5)" by (simp add: exact_pow_def)
    with 3 pw show ?thesis
      unfolding calculate_golden_ratio_font_scale_fl_def calculate_golden_ratio_font_scale_def
        adjusted_golden_ratio_exact r_def[symmetric] Let_def exact_ops_simps rounded_def
      by (simp add: and_then_def)
  qed
qed

lemma recommendations_exact:
  "get_typographic_recommendations_fl exact_ops hf bf ws a f e ps
     = get_typographic_recommendations hf bf ws a f e ps"
  unfolding get_typographic_recommendations_fl_def get_typographic_recommendations_def exact_ops_simps
  by (simp cong: if_cong)

lemma finish_exact:
  "finish_fl exact_ops hf bf b (features_of ag) ps = finish hf bf b ag ps"
  unfolding finish_fl_def finish_def scale_exact recommendations_exact features_of_simps
  by (rule refl)

lemma base_font_size_px_exact:
  "base_font_size_px_fl exact_ops (features_of ag) = Inr (base_font_size_px ag)"
  unfolding base_font_size_px_fl_def base_font_size_px_def features_of_simps exact_ops_simps
  by (simp add: and_then_def Let_def)

lemma infer_pairing_exact:
  "infer_pairing_fl exact_ops (features_of ag) ps bh bb = infer_pairing ag ps bh bb"
proof -
  have s: "select_step_fl exact_ops (features_of ag) moods styles bh bb = select_step ag moods styles bh bb"
    for moods styles
    by (intro ext) (rule select_step_exact)
  have i: "fl_of_int exact_ops (- 1) = - 1" by (simp add: exact_ops_simps)
  show ?thesis
    unfolding infer_pairing_fl_def infer_pairing_def run_loop_select base_font_size_px_exact
      finish_exact features_of_simps s i
    by (simp add: Let_def split: sum.splits)
qed

lemma suggest_fonts_exact:
  "suggest_fonts_fl exact_ops results brand_guidelines = suggest_fonts results brand_guidelines"
proof -
  have i: "fl_of_int exact_ops 16 = 16" by (simp add: exact_ops_simps)
  show ?thesis
    unfolding suggest_fonts_fl_def suggest_fonts_def aggregate_fl_exact
    by (simp add: Let_def active_guidelines_exact finish_exact infer_pairing_exact i
        split: sum.splits)
qed

section \<open>Font-size scale\<close>

subsection \<open>Both fonts given by the brand guidelines\<close>

lemma aggregate_empty:
  "aggregate [] =
     \<lparr> avg_whitespace = 0.5, avg_h_symmetry = 0.5, avg_v_symmetry = 0.5,
       avg_fractal_dimension = 1.5, avg_entropy = 4, avg_visual_balance = 0.5,
       avg_aesthetic_score = 5, inferred_mood_tags_from_image = [],
       inferred_typography_tags_from_image = [] \<rparr>"
  by (simp add: aggregate_def List.map_filter_simps mean_or_def)

lemma py_round_int: "py_round (of_int n) = n"
  by (simp add: py_round_def)

lemma suggest_fonts_explicit:
  "suggest_fonts [] explicit_bg =
     finish (JStr ''Georgia'') (JStr ''Verdana'') 16 (aggregate []) []"
  by (simp add: suggest_fonts_def explicit_bg_def inference_defs)

lemma scale_body_value:
  assumes "0 < adjusted_golden_ratio ws a f e"
  shows "map_sum id body (calculate_golden_ratio_font_scale b ws a f e) = Inr (max 1 (py_round b))"
  using assms by (simp add: calculate_golden_ratio_font_scale_def Let_def)

lemma finish_body_value:
  assumes "0 < adjusted_golden_ratio (avg_whitespace ag) (avg_aesthetic_score ag)
                 (avg_fractal_dimension ag) (avg_entropy ag)"
    and "get_typographic_recommendations hf bf (avg_whitespace ag) (avg_aesthetic_score ag)
           (avg_fractal_dimension ag) (avg_entropy ag) ps = Inr recs"
  shows "map_sum id (\<lambda>r. body (font_size_scale r)) (finish hf bf b ag ps) = Inr (max 1 (py_round b))"
  using assms by (simp add: finish_def calculate_golden_ratio_font_scale_def Let_def)

lemma ratio_default:
  "0 < adjusted_golden_ratio (avg_whitespace (aggregate [])) (avg_aesthetic_score (aggregate []))
         (avg_fractal_dimension (aggregate [])) (avg_entropy (aggregate []))"
  by (simp add: aggregate_empty adjusted_golden_ratio_def GOLDEN_RATIO_def)

lemma recommendations_explicit:
  "get_typographic_recommendations (JStr ''Georgia'') (JStr ''Verdana'')
     (avg_whitespace (aggregate [])) (avg_aesthetic_score (aggregate []))
     (avg_fractal_dimension (aggregate [])) (avg_entropy (aggregate [])) []
     = Inr \<lparr> line_height = ''normal'', letter_spacing = ''normal'' \<rparr>"
  by (simp add: aggregate_empty get_typographic_recommendations_def lower_of_def lower_def lower_char_def)

text \<open>
  With both fonts given and no image the aggregated whitespace is 0.5 and the aesthetic
  score 5: the claimed base is 21 pixels, the body size returned is 16.
\<close>

theorem explicit_fonts_base_counterexample:
  "map_sum id (\<lambda>r. body (font_size_scale r)) (suggest_fonts [] explicit_bg) = Inr 16
   \<and> map_sum id body
        (calculate_golden_ratio_font_scale
           (16 + avg_whitespace (aggregate []) * 6 + avg_aesthetic_score (aggregate []) / 10 * 4)
           (avg_whitespace (aggregate [])) (avg_aesthetic_score (aggregate []))
           (avg_fractal_dimension (aggregate [])) (avg_entropy (aggregate []))) = Inr 21"
proof -
  have b: "16 + avg_whitespace (aggregate []) * 6 + avg_aesthetic_score (aggregate []) / 10 * 4 = 21"
    by (simp add: aggregate_empty)
  have "map_sum id (\<lambda>r. body (font_size_scale r)) (suggest_fonts [] explicit_bg) = Inr (max 1 (py_round 16))"
    unfolding suggest_fonts_explicit
    by (rule finish_body_value[OF ratio_default recommendations_explicit])
  moreover have "map_sum id body
        (calculate_golden_ratio_font_scale 21
           (avg_whitespace (aggregate [])) (avg_aesthetic_score (aggregate []))
           (avg_fractal_dimension (aggregate [])) (avg_entropy (aggregate []))) = Inr (max 1 (py_round 21))"
    by (rule scale_body_value[OF ratio_default])
  ultimately show ?thesis
    unfolding b using py_round_int[of 16] py_round_int[of 21] by simp
qed

subsection \<open>The base size in floating point\<close>

text \<open>
  The base size depends on means and on comparisons with thresholds, which rounding can
  move; the statement is therefore made of the font suggester over an arbitrary record of
  float operations.
\<close>

lemma fully_dictated_active_fl:
  "fully_dictated (active_guidelines_fl A ft brand_guidelines) = fully_dictated brand_guidelines"
  by (simp add: active_guidelines_fl_def fully_dictated_def is_set_def)

lemma finish_fl_scale:
  assumes "finish_fl A hf bf base_size ft principles = Inr r"
  shows "calculate_golden_ratio_font_scale_fl A base_size (ft_whitespace ft) (ft_aesthetic_score ft)
           (ft_fractal_dimension ft) (ft_entropy ft) = Inr (font_size_scale r)"
  using assms by (auto simp: finish_fl_def split: sum.splits)

lemma scale_fl_body:
  assumes "calculate_golden_ratio_font_scale_fl A b ws a f e = Inr sc" and "fl_round A b = Inr n"
  shows "body sc = max 1 n"
  using assms
  by (auto simp: calculate_golden_ratio_font_scale_fl_def rounded_def and_then_def Let_def
      split: sum.splits)

lemma exact_pow_numeral: "exact_pow x (numeral n) = Inr (x ^ numeral n)"
  by (simp add: exact_pow_def)

lemma scale_fl_exact_returns:
  assumes "0 < adjusted_golden_ratio_fl exact_ops ws a f e"
  shows "\<exists>sc. calculate_golden_ratio_font_scale_fl exact_ops b ws a f e = Inr sc"
proof -
  define r where "r = adjusted_golden_ratio_fl exact_ops ws a f e"
  have r: "0 < r" using assms by (simp add: r_def)
  have p: "exact_pow r (3 / 2) = Inr (r powr (3 / 2))" using r by (simp add: exact_pow_def)
  have nz: "r powr (3 / 2) \<noteq> 0" "r \<noteq> 0" using r by simp_all
  show ?thesis
    unfolding calculate_golden_ratio_font_scale_fl_def r_def[symmetric] Let_def
    using nz by (simp add: exact_ops_def rounded_def and_then_def p exact_pow_numeral)
qed


lemmas fl_defs = exact_ops_def and_then_def fl_mean_or_def present_def

lemmas inference_fl_defs = active_guidelines_fl_def infer_layout_preference_fl_def
  infer_design_principles_fl_def design_principles_of_def fully_dictated_def is_set_def

lemmas selection_fl_defs = FONT_PAIRINGS_def select_step_fl_def match_score_fl_def
  count_common_def add_if_def number_item_def

lemma aggregate_fl_empty:
  "aggregate_fl exact_ops [] =
     Inr \<lparr> ft_whitespace = 0.5, ft_h_symmetry = 0.5, ft_v_symmetry = 0.5,
           ft_fractal_dimension = 1.5, ft_entropy = 4, ft_visual_balance = 0.5,
           ft_aesthetic_score = 5, ft_mood_tags = [], ft_typography_tags = [] \<rparr>"
  by (simp add: aggregate_fl_def fl_defs List.map_filter_simps)

lemma aggregate_fl_calm:
  "aggregate_fl exact_ops [calm_analysis] =
     Inr \<lparr> ft_whitespace = 0.85, ft_h_symmetry = 0.95, ft_v_symmetry = 0.95,
           ft_fractal_dimension = 1.1, ft_entropy = 2, ft_visual_balance = 0.98,
           ft_aesthetic_score = 9, ft_mood_tags = [''calm'', ''minimalist'', ''balanced''],
           ft_typography_tags = [''light'', ''geometric''] \<rparr>"
  by (simp add: aggregate_fl_def fl_defs List.map_filter_simps calm_analysis_def tag_defs)

lemma aggregate_fl_vibrant:
  "aggregate_fl exact_ops [vibrant_analysis] =
     Inr \<lparr> ft_whitespace = 0.25, ft_h_symmetry = 0.6, ft_v_symmetry = 0.5,
           ft_fractal_dimension = 1.8, ft_entropy = 7.5, ft_visual_balance = 0.7,
           ft_aesthetic_score = 7, ft_mood_tags = [''vibrant'', ''energetic'', ''dense''],
           ft_typography_tags = [''sans-serif'', ''bold''] \<rparr>"
  by (simp add: aggregate_fl_def fl_defs List.map_filter_simps vibrant_analysis_def tag_defs)

lemma finish_fl_exact_returns:
  assumes "0 < adjusted_golden_ratio_fl exact_ops (ft_whitespace ft) (ft_aesthetic_score ft)
                 (ft_fractal_dimension ft) (ft_entropy ft)"
    and "get_typographic_recommendations_fl exact_ops hf bf (ft_whitespace ft) (ft_aesthetic_score ft)
           (ft_fractal_dimension ft) (ft_entropy ft) ps = Inr recs"
  shows "\<exists>r. finish_fl exact_ops hf bf b ft ps = Inr r"
  using scale_fl_exact_returns[OF assms(1), of b] assms(2) by (auto simp: finish_fl_def)

lemma explicit_returns: "\<exists>r. suggest_fonts_fl exact_ops [] explicit_bg = Inr r"
proof -
  have "suggest_fonts_fl exact_ops [] explicit_bg =
          finish_fl exact_ops (JStr ''Georgia'') (JStr ''Verdana'') 16
            \<lparr> ft_whitespace = 0.5, ft_h_symmetry = 0.5, ft_v_symmetry = 0.5,
              ft_fractal_dimension = 1.5, ft_entropy = 4, ft_visual_balance = 0.5,
              ft_aesthetic_score = 5, ft_mood_tags = [], ft_typography_tags = [] \<rparr> []"
    unfolding suggest_fonts_fl_def aggregate_fl_empty
    by (simp add: explicit_bg_def inference_fl_defs exact_ops_def)
  moreover have "\<exists>r. \<dots> = Inr r"
    by (rule finish_fl_exact_returns)
       (simp_all add: adjusted_golden_ratio_fl_def GOLDEN_RATIO_def exact_ops_def
          get_typographic_recommendations_fl_def lower_of_def lower_def lower_char_def)
  ultimately show ?thesis by simp
qed

lemma calm_returns: "\<exists>r. suggest_fonts_fl exact_ops [calm_analysis] [] = Inr r"
proof -
  have "suggest_fonts_fl exact_ops [calm_analysis] [] =
          finish_fl exact_ops (JStr ''Roboto'') (JStr ''Open Sans'') 25.935
            \<lparr> ft_whitespace = 0.85, ft_h_symmetry = 0.95, ft_v_symmetry = 0.95,
              ft_fractal_dimension = 1.1, ft_entropy = 2, ft_visual_balance = 0.98,
              ft_aesthetic_score = 9, ft_mood_tags = [''calm'', ''minimalist'', ''balanced''],
              ft_typography_tags = [''light'', ''geometric''] \<rparr>
            [''structured'', ''subtle'', ''clean'']"
    unfolding suggest_fonts_fl_def aggregate_fl_calm
    by (simp add: inference_fl_defs infer_pairing_fl_def selection_fl_defs choose_fonts_def
        base_font_size_px_fl_def fl_defs lower_def lower_char_def strip_def is_space_def)
  moreover have "\<exists>r. \<dots> = Inr r"
    by (rule finish_fl_exact_returns)
       (simp_all add: adjusted_golden_ratio_fl_def GOLDEN_RATIO_def exact_ops_def
          get_typographic_recommendations_fl_def lower_of_def lower_def lower_char_def)
  ultimately show ?thesis by simp
qed


lemma vibrant_returns: "\<exists>r. suggest_fonts_fl exact_ops [vibrant_analysis] [] = Inr r"
proof -
  have "suggest_fonts_fl exact_ops [vibrant_analysis] [] =
          finish_fl exact_ops (JStr ''Anton'') (JStr ''Open Sans'') 19.285
            \<lparr> ft_whitespace = 0.25, ft_h_symmetry = 0.6, ft_v_symmetry = 0.5,
              ft_fractal_dimension = 1.8, ft_entropy = 7.5, ft_visual_balance = 0.7,
              ft_aesthetic_score = 7, ft_mood_tags = [''vibrant'', ''energetic'', ''dense''],
              ft_typography_tags = [''sans-serif'', ''bold''] \<rparr>
            [''organic'', ''bold'', ''complex'']"
    unfolding suggest_fonts_fl_def aggregate_fl_vibrant
    by (simp add: inference_fl_defs infer_pairing_fl_def selection_fl_defs choose_fonts_def
        base_font_size_px_fl_def fl_defs lower_def lower_char_def strip_def is_space_def)
  moreover have "\<exists>r. \<dots> = Inr r"
    by (rule finish_fl_exact_returns)
       (simp_all add: adjusted_golden_ratio_fl_def GOLDEN_RATIO_def exact_ops_def
          get_typographic_recommendations_fl_def lower_of_def lower_def lower_char_def)
  ultimately show ?thesis by simp
qed

lemma exact_round: "fl_round exact_ops x = Inr (py_round x)"
  by (simp add: exact_ops_def)

lemma py_round_values:
  "py_round 16 = 16" "py_round (5187 / 200) = 26" "py_round (3857 / 200) = 19"
  by (simp_all add: py_round_def frac_def round_def)

text \<open>
  Claim C6, as amended. Whatever the float operations are, whenever \<open>suggest_fonts\<close> returns,
  its \<open>font_size_scale\<close> is the golden-ratio scale of the features aggregated by the program,
  built on the base size 16 when the brand guidelines set both the heading and the body
  font, and otherwise on \<open>16 + whitespace * 6 + aesthetic / 10 * 4\<close>, multiplied by 1.05 if
  the fractal dimension is below 1.3 or the entropy below 3.0, else by 0.95 if the fractal
  dimension is above 1.7 or the entropy above 6.5; the aggregation, the base size and the
  scale are all computed without an exception.
\<close>

theorem suggest_fonts_fl_scale_base:
  assumes "suggest_fonts_fl A results brand_guidelines = Inr r"
  shows "and_then (aggregate_fl A results) (\<lambda>ft.
           and_then
             (if fully_dictated brand_guidelines then Inr (fl_of_int A 16)
              else and_then (fl_div A (ft_aesthetic_score ft) (fl_of_int A 10)) (\<lambda>q.
                     let b = fl_add A (fl_add A (fl_of_int A 16) (fl_mul A (ft_whitespace ft) (fl_of_int A 6)))
                               (fl_mul A q (fl_of_int A 4))
                     in if fl_less A (ft_fractal_dimension ft) (fl_lit A 1.3)
                           \<or> fl_less A (ft_entropy ft) (fl_lit A 3.0)
                        then Inr (fl_mul A b (fl_lit A 1.05))
                        else if fl_less A (fl_lit A 1.7) (ft_fractal_dimension ft)
                                \<or> fl_less A (fl_lit A 6.5) (ft_entropy ft)
                        then Inr (fl_mul A b (fl_lit A 0.95))
                        else Inr b))
             (\<lambda>base_size.
                calculate_golden_ratio_font_scale_fl A base_size (ft_whitespace ft)
                  (ft_aesthetic_score ft) (ft_fractal_dimension ft) (ft_entropy ft)))
         = Inr (font_size_scale r)"
proof -
  from assms obtain ft where ft: "aggregate_fl A results = Inr ft"
    by (auto simp: suggest_fonts_fl_def split: sum.splits)
  show ?thesis
  proof (cases "fully_dictated brand_guidelines")
    case True
    with assms ft obtain hf bf ps where "finish_fl A hf bf (fl_of_int A 16) ft ps = Inr r"
      by (auto simp: suggest_fonts_fl_def Let_def fully_dictated_active_fl split: sum.splits)
    from finish_fl_scale[OF this] True ft show ?thesis by (simp add: and_then_def)
  next
    case False
    with assms ft obtain hf bf ps base_size where
      b: "base_font_size_px_fl A ft = Inr base_size"
      and f: "finish_fl A hf bf base_size ft ps = Inr r"
      by (auto simp: suggest_fonts_fl_def infer_pairing_fl_def Let_def fully_dictated_active_fl
          split: sum.splits)
    from finish_fl_scale[OF f] b False ft show ?thesis
      by (simp add: and_then_def base_font_size_px_fl_def Let_def)
  qed
qed

text \<open>
  Three calls with the exact operations: both fonts given and no image (base 16, body 16);
  the calm test image (base \<open>24.7 * 1.05 = 25.935\<close>, body 26); the vibrant test image (base
  \<open>20.3 * 0.95 = 19.285\<close>, body 19).
\<close>

theorem suggest_fonts_fl_scale_base_witness:
  "suggest_fonts_fl exact_ops [] explicit_bg = Inr (projr (suggest_fonts_fl exact_ops [] explicit_bg))
   \<and> body (font_size_scale (projr (suggest_fonts_fl exact_ops [] explicit_bg))) = 16
   \<and> suggest_fonts_fl exact_ops [calm_analysis] []
       = Inr (projr (suggest_fonts_fl exact_ops [calm_analysis] []))
   \<and> body (font_size_scale (projr (suggest_fonts_fl exact_ops [calm_analysis] []))) = 26
   \<and> suggest_fonts_fl exact_ops [vibrant_analysis] []
       = Inr (projr (suggest_fonts_fl exact_ops [vibrant_analysis] []))
   \<and> body (font_size_scale (projr (suggest_fonts_fl exact_ops [vibrant_analysis] []))) = 19"
proof -
  have e: "suggest_fonts_fl exact_ops [] explicit_bg
             = Inr (projr (suggest_fonts_fl exact_ops [] explicit_bg))"
    using explicit_returns by auto
  have c: "suggest_fonts_fl exact_ops [calm_analysis] []
             = Inr (projr (suggest_fonts_fl exact_ops [calm_analysis] []))"
    using calm_returns by auto
  have v: "suggest_fonts_fl exact_ops [vibrant_analysis] []
             = Inr (projr (suggest_fonts_fl exact_ops [vibrant_analysis] []))"
    using vibrant_returns by auto
  have d: "fully_dictated explicit_bg" "\<not> fully_dictated []"
    by (simp_all add: fully_dictated_def explicit_bg_def is_set_def)
  have "calculate_golden_ratio_font_scale_fl exact_ops 16 0.5 5 1.5 4
          = Inr (font_size_scale (projr (suggest_fonts_fl exact_ops [] explicit_bg)))"
    using suggest_fonts_fl_scale_base[OF e]
    by (simp add: aggregate_fl_empty d and_then_def) (simp add: exact_ops_def)
  from scale_fl_body[OF this exact_round] have b1:
    "body (font_size_scale (projr (suggest_fonts_fl exact_ops [] explicit_bg))) = 16"
    by (simp add: py_round_values)
  have "calculate_golden_ratio_font_scale_fl exact_ops 25.935 0.85 9 1.1 2
          = Inr (font_size_scale (projr (suggest_fonts_fl exact_ops [calm_analysis] [])))"
    using suggest_fonts_fl_scale_base[OF c]
    by (simp add: aggregate_fl_calm d and_then_def) (simp add: exact_ops_def)
  from scale_fl_body[OF this exact_round] have b2:
    "body (font_size_scale (projr (suggest_fonts_fl exact_ops [calm_analysis] []))) = 26"
    by (simp add: py_round_values)
  have "calculate_golden_ratio_font_scale_fl exact_ops 19.285 0.25 7 1.8 7.5
          = Inr (font_size_scale (projr (suggest_fonts_fl exact_ops [vibrant_analysis] [])))"
    using suggest_fonts_fl_scale_base[OF v]
    by (simp add: aggregate_fl_vibrant d and_then_def) (simp add: exact_ops_def)
  from scale_fl_body[OF this exact_round] have b3:
    "body (font_size_scale (projr (suggest_fonts_fl exact_ops [vibrant_analysis] []))) = 19"
    by (simp add: py_round_values)
  from e c v b1 b2 b3 show ?thesis by blast
qed

end
